theory Spec2Isabelle
  imports Complex_Main
begin

section \<open>JavaScript values\<close>

text \<open>
  The values the hook and the form pass around at run time.  A response body parsed by
  \<open>response.json()\<close> is any JSON value, and the TypeScript annotations
  (\<open>message?: string\<close>) are not checked at run time, so messages are modelled as
  arbitrary values.  \<open>Undefined\<close> and \<open>Null\<close> are JavaScript's \<open>undefined\<close> and
  \<open>null\<close>; \<open>JNum\<close> carries the value of the parsed number (JSON has no NaN), of
  which only being zero matters here; \<open>JObj\<close> lists an object's own properties.
\<close>

datatype jsval =
    Undefined
  | Null
  | JBool bool
  | JNum rat
  | JStr string
  | JArr "jsval list"
  | JObj "(string \<times> jsval) list"

text \<open>\<open>Boolean(v)\<close>, also the test of \<open>v ? a : b\<close> and of \<open>v && e\<close>.\<close>

fun truthy :: "jsval \<Rightarrow> bool" where
  "truthy Undefined = False"
| "truthy Null = False"
| "truthy (JBool b) = b"
| "truthy (JNum q) = (q \<noteq> 0)"
| "truthy (JStr s) = (s \<noteq> [])"
| "truthy (JArr xs) = True"
| "truthy (JObj kvs) = True"

text \<open>
  \<open>v?.k\<close> for the two keys the source reads, \<open>valid\<close> and \<open>message\<close>: the property of
  an object, and \<open>undefined\<close> on \<open>null\<close>, \<open>undefined\<close>, and on the primitives and
  arrays, which have no property of either name.
\<close>

fun opt_get :: "jsval \<Rightarrow> string \<Rightarrow> jsval" where
  "opt_get (JObj kvs) k = (case map_of kvs k of None \<Rightarrow> Undefined | Some v \<Rightarrow> v)"
| "opt_get v k = Undefined"

text \<open>\<open>a ?? b\<close>.\<close>

definition nullish :: "jsval \<Rightarrow> jsval \<Rightarrow> jsval" where
  "nullish a b = (if a = Undefined \<or> a = Null then b else a)"

section \<open>The corporation number hook\<close>

text \<open>\<open>src/hooks/use-corporation-number-validation.ts\<close>\<close>

record CorporationValidationResult =
  valid :: bool
  message :: jsval

datatype CorporationValidationStatus = Idle | Loading | Valid | Invalid

definition CORPORATION_ENDPOINT :: string where
  "CORPORATION_ENDPOINT = ''https://fe-hometask-api.qa.vault.tryvault.com/corporation-number''"

text \<open>A call of the global \<open>fetch\<close>: the method, the URL and, for a POST, the value
  that \<open>JSON.stringify\<close> serialises into the body.\<close>

datatype request = GET string | POST string jsval

text \<open>
  The state of one hook instance: the two refs, the two pieces of React state, and what
  the refs point to.  An \<open>AbortController\<close> is the number it was created as
  (\<open>controllers\<close> counts the ones created so far) and \<open>aborted\<close> holds those whose
  \<open>signal.aborted\<close> is true.  \<open>fetch_calls\<close> records the calls made to \<open>fetch\<close>,
  oldest first.
\<close>

record hook_state =
  cacheRef :: "string \<Rightarrow> CorporationValidationResult option"
  abortRef :: "nat option"
  aborted :: "nat set"
  controllers :: nat
  status :: CorporationValidationStatus
  errorMessage :: jsval
  fetch_calls :: "request list"

definition hook_init :: hook_state where
  "hook_init = \<lparr>cacheRef = Map.empty, abortRef = None, aborted = {}, controllers = 0,
     status = Idle, errorMessage = Null, fetch_calls = []\<rparr>"

text \<open>\<open>\d\<close> and \<open>/^\d{9}$/.test(s)\<close> (no flags: \<open>$\<close> is the end of the input).\<close>

definition is_digit :: "char \<Rightarrow> bool" where
  "is_digit c = (c \<in> set ''0123456789'')"

definition nine_digits :: "string \<Rightarrow> bool" where
  "nine_digits s = (length s = 9 \<and> list_all is_digit s)"

definition lookup_url :: "string \<Rightarrow> string" where
  "lookup_url corporationNumber = CORPORATION_ENDPOINT @ ''/'' @ corporationNumber"

text \<open>\<open>abortRef.current?.abort()\<close>\<close>

definition abort_current :: "hook_state \<Rightarrow> nat set" where
  "abort_current s = (case abortRef s of None \<Rightarrow> aborted s | Some c \<Rightarrow> insert c (aborted s))"

text \<open>
  \<open>validate\<close> is an async function with two awaits, both on the network.  Its run up
  to \<open>await fetch(...)\<close> is \<open>validate_start\<close>: it either returns at once or leaves a
  request in flight under a new controller.
\<close>

datatype validate_progress = Returned CorporationValidationResult | Awaiting nat

definition fallbackMessage :: jsval where
  "fallbackMessage = JStr ''Invalid corporation number''"

definition validate_start :: "hook_state \<Rightarrow> string \<Rightarrow> validate_progress \<times> hook_state" where
  "validate_start s corporationNumber =
     (if \<not> nine_digits corporationNumber then
        (Returned \<lparr>valid = False, message = Undefined\<rparr>, s)
      else case cacheRef s corporationNumber of
        Some cached \<Rightarrow>
          (Returned cached,
           s\<lparr>status := (if valid cached then Valid else Invalid),
             errorMessage := (if valid cached then Null else nullish (message cached) Null)\<rparr>)
      | None \<Rightarrow>
          (Awaiting (controllers s),
           s\<lparr>aborted := abort_current s,
             abortRef := Some (controllers s),
             controllers := Suc (controllers s),
             status := Loading,
             errorMessage := Null,
             fetch_calls := fetch_calls s @ [GET (lookup_url corporationNumber)]\<rparr>))"

text \<open>
  How the request of one call settles, as the rest of \<open>validate\<close> sees it: the promise
  of \<open>fetch\<close> rejects (a transport failure, or the AbortError of an aborted request),
  the response is not ok, the response is ok and \<open>response.json()\<close> rejects, or it
  yields a payload.
\<close>

datatype fetch_outcome = FetchRejected | NotOk | JsonRejected | OkJson jsval

text \<open>
  The rest of \<open>validate\<close> for the call that holds controller \<open>c\<close> and number
  \<open>corporationNumber\<close>, run on the state of the hook at the moment the request settles.
  Between the two awaits the function neither reads nor writes the hook, so one step
  stands for both.
\<close>

definition validate_resume ::
  "hook_state \<Rightarrow> nat \<Rightarrow> string \<Rightarrow> fetch_outcome \<Rightarrow> CorporationValidationResult \<times> hook_state" where
  "validate_resume s c corporationNumber out =
     (case out of
        NotOk \<Rightarrow>
          (\<lparr>valid = False, message = fallbackMessage\<rparr>,
           s\<lparr>status := Invalid, errorMessage := fallbackMessage\<rparr>)
      | OkJson payload \<Rightarrow>
          (let result = \<lparr>valid = truthy (opt_get payload ''valid''),
                         message = (if truthy (opt_get payload ''valid'') then Undefined
                                    else nullish (opt_get payload ''message'') fallbackMessage)\<rparr>
           in (result,
               s\<lparr>cacheRef := (cacheRef s)(corporationNumber \<mapsto> result),
                 status := (if valid result then Valid else Invalid),
                 errorMessage := (if valid result then Null else nullish (message result) Null)\<rparr>))
      | _ \<Rightarrow>
          (if c \<in> aborted s then (\<lparr>valid = False, message = Undefined\<rparr>, s)
           else (\<lparr>valid = False, message = fallbackMessage\<rparr>,
                 s\<lparr>status := Invalid, errorMessage := fallbackMessage\<rparr>)))"

text \<open>\<open>reset\<close> of the hook.\<close>

definition reset_validation :: "hook_state \<Rightarrow> hook_state" where
  "reset_validation s = s\<lparr>aborted := abort_current s, status := Idle, errorMessage := Null\<rparr>"

text \<open>
  What can happen to a hook instance, one event at a time: a call of \<open>validate\<close>, the
  settling of a request, a call of \<open>reset\<close>.  \<open>run_hook\<close> plays a list of events.
\<close>

datatype hook_event = Validate string | Settle nat string fetch_outcome | Reset

fun hook_step :: "hook_state \<Rightarrow> hook_event \<Rightarrow> hook_state" where
  "hook_step s (Validate n) = snd (validate_start s n)"
| "hook_step s (Settle c n out) = snd (validate_resume s c n out)"
| "hook_step s Reset = reset_validation s"

definition run_hook :: "hook_state \<Rightarrow> hook_event list \<Rightarrow> hook_state" where
  "run_hook s evs = foldl hook_step s evs"

text \<open>Every lookup sent so far was for a nine-digit number: each GET went to the
  lookup endpoint followed by \<open>/\<close> and nine digits.\<close>

definition is_lookup_request :: "request \<Rightarrow> bool" where
  "is_lookup_request r =
     (case r of
        GET u \<Rightarrow> take (length (lookup_url [])) u = lookup_url []
                 \<and> nine_digits (drop (length (lookup_url [])) u)
      | POST u b \<Rightarrow> True)"

definition lookups_well_formed :: "hook_state \<Rightarrow> bool" where
  "lookups_well_formed s = list_all is_lookup_request (fetch_calls s)"

section \<open>The onboarding form\<close>

text \<open>\<open>src/components/onboarding/onboarding-form.tsx\<close>\<close>

record OnboardingFormValues =
  firstName :: string
  lastName :: string
  phone :: string
  corporationNumber :: string

text \<open>
  \<open>formState.errors\<close>: for each field no error, or the message of its error (the
  \<open>type\<close> of an error is never read by the component).
\<close>

record form_errors =
  firstNameError :: "jsval option"
  lastNameError :: "jsval option"
  phoneError :: "jsval option"
  corporationNumberError :: "jsval option"

definition no_errors :: form_errors where
  "no_errors = \<lparr>firstNameError = None, lastNameError = None, phoneError = None,
     corporationNumberError = None\<rparr>"

text \<open>
  \<open>onboardingSchema\<close>, field by field, as the resolver reports it: the message of the
  first check that fails.  \<open>/^\+1\d{10}$/\<close> is \<open>+1\<close> and ten digits.
\<close>

definition firstName_rule :: "string \<Rightarrow> jsval option" where
  "firstName_rule v =
     (if length v < 1 then Some (JStr ''First name is required'')
      else if length v > 50 then Some (JStr ''First name must be 50 characters or less'')
      else None)"

definition lastName_rule :: "string \<Rightarrow> jsval option" where
  "lastName_rule v =
     (if length v < 1 then Some (JStr ''Last name is required'')
      else if length v > 50 then Some (JStr ''Last name must be 50 characters or less'')
      else None)"

definition phone_re :: "string \<Rightarrow> bool" where
  "phone_re v = (take 2 v = ''+1'' \<and> length (drop 2 v) = 10 \<and> list_all is_digit (drop 2 v))"

definition phone_rule :: "string \<Rightarrow> jsval option" where
  "phone_rule v =
     (if phone_re v then None
      else Some (JStr ''Enter a valid Canadian phone number starting with +1 followed by 10 digits''))"

definition corporationNumber_rule :: "string \<Rightarrow> jsval option" where
  "corporationNumber_rule v =
     (if nine_digits v then None
      else Some (JStr ''Corporation number must be exactly 9 digits''))"

definition onboardingSchema :: "OnboardingFormValues \<Rightarrow> form_errors" where
  "onboardingSchema v =
     \<lparr>firstNameError = firstName_rule (firstName v),
      lastNameError = lastName_rule (lastName v),
      phoneError = phone_rule (phone v),
      corporationNumberError = corporationNumber_rule (corporationNumber v)\<rparr>"

definition PROFILE_ENDPOINT :: string where
  "PROFILE_ENDPOINT = ''https://fe-hometask-api.qa.vault.tryvault.com/profile-details''"

definition defaultValues :: OnboardingFormValues where
  "defaultValues = \<lparr>firstName = [], lastName = [], phone = [], corporationNumber = []\<rparr>"

text \<open>
  The state of the component: the form library's values and errors, the hook, and the
  two pieces of React state of the submission.
\<close>

record form_state =
  field_values :: OnboardingFormValues
  errors :: form_errors
  hook :: hook_state
  serverError :: jsval
  serverSuccess :: jsval

definition form_init :: form_state where
  "form_init = \<lparr>field_values = defaultValues, errors = no_errors, hook = hook_init,
     serverError = Null, serverSuccess = Null\<rparr>"

text \<open>
  The form library (react-hook-form with the zod resolver) is not part of the
  repository; its five entry points are modelled as it documents them.
  \<open>trigger("corporationNumber")\<close> runs the schema, stores or removes the error of
  that one field and answers whether the field passed; \<open>setError\<close> stores an error;
  \<open>clearErrors\<close> removes it; \<open>reset()\<close> restores the default values and removes all
  errors; \<open>handleSubmit\<close> is part of \<open>submit_press\<close> below.
\<close>

definition trigger_corporationNumber :: "form_state \<Rightarrow> bool \<times> form_state" where
  "trigger_corporationNumber f =
     (let e = corporationNumber_rule (corporationNumber (field_values f))
      in (e = None, f\<lparr>errors := (errors f)\<lparr>corporationNumberError := e\<rparr>\<rparr>))"

definition setError_corporationNumber :: "form_state \<Rightarrow> jsval \<Rightarrow> form_state" where
  "setError_corporationNumber f m = f\<lparr>errors := (errors f)\<lparr>corporationNumberError := Some m\<rparr>\<rparr>"

definition clearErrors_corporationNumber :: "form_state \<Rightarrow> form_state" where
  "clearErrors_corporationNumber f = f\<lparr>errors := (errors f)\<lparr>corporationNumberError := None\<rparr>\<rparr>"

definition reset_form :: "form_state \<Rightarrow> form_state" where
  "reset_form f = f\<lparr>field_values := defaultValues, errors := no_errors\<rparr>"

text \<open>
  \<open>ensureCorporationValid\<close>, split at its await of the lookup like \<open>validate\<close>:
  \<open>ensure_finish\<close> is what it does with the result of \<open>validate\<close>.
\<close>

datatype ensure_progress = EnsureReturned bool | EnsureAwaiting nat string

definition ensure_finish :: "form_state \<Rightarrow> CorporationValidationResult \<Rightarrow> bool \<times> form_state" where
  "ensure_finish f result =
     (if \<not> valid result then
        (False, setError_corporationNumber f (nullish (message result) (JStr ''Invalid corporation number'')))
      else (True, clearErrors_corporationNumber f))"

definition ensure_start :: "form_state \<Rightarrow> ensure_progress \<times> form_state" where
  "ensure_start f =
     (case trigger_corporationNumber f of
        (baseValid, f1) \<Rightarrow>
          if \<not> baseValid then (EnsureReturned False, f1)
          else (case validate_start (hook f1) (corporationNumber (field_values f1)) of
                  (Returned result, h) \<Rightarrow>
                    (case ensure_finish (f1\<lparr>hook := h\<rparr>) result of
                       (ok, f2) \<Rightarrow> (EnsureReturned ok, f2))
                | (Awaiting c, h) \<Rightarrow>
                    (EnsureAwaiting c (corporationNumber (field_values f1)), f1\<lparr>hook := h\<rparr>)))"

definition ensure_resume ::
  "form_state \<Rightarrow> nat \<Rightarrow> string \<Rightarrow> fetch_outcome \<Rightarrow> bool \<times> form_state" where
  "ensure_resume f c v out =
     (case validate_resume (hook f) c v out of
        (result, h) \<Rightarrow> ensure_finish (f\<lparr>hook := h\<rparr>) result)"

text \<open>\<open>handleCorporationBlur\<close>: the blur of the corporation field, up to the lookup,
  and its end when the lookup settles.  (The input first calls the form library's own
  \<open>onBlur\<close>, which checks the field against the schema as \<open>trigger\<close> does again.)\<close>

definition blur_start :: "form_state \<Rightarrow> ensure_progress \<times> form_state" where
  "blur_start f = ensure_start f"

definition blur_settled :: "form_state \<Rightarrow> nat \<Rightarrow> string \<Rightarrow> fetch_outcome \<Rightarrow> form_state" where
  "blur_settled f c v out = snd (ensure_resume f c v out)"

text \<open>
  \<open>onSubmit\<close>.  \<open>handleSubmit\<close> runs the schema on all the values; when a field fails
  it stores the errors and does not call the handler, otherwise it stores no errors and
  calls it with the values.  The handler is split at its two awaits of the network: the
  lookup (when \<open>validate\<close> has to ask) and the POST.
\<close>

datatype submit_progress =
    SubmitReturned
  | SubmitAwaitingLookup nat string OnboardingFormValues
  | SubmitAwaitingPost

definition json_of_values :: "OnboardingFormValues \<Rightarrow> jsval" where
  "json_of_values v =
     JObj [(''firstName'', JStr (firstName v)), (''lastName'', JStr (lastName v)),
           (''phone'', JStr (phone v)), (''corporationNumber'', JStr (corporationNumber v))]"

definition post_profile :: "form_state \<Rightarrow> OnboardingFormValues \<Rightarrow> form_state" where
  "post_profile f v =
     f\<lparr>hook := (hook f)\<lparr>fetch_calls := fetch_calls (hook f) @ [POST PROFILE_ENDPOINT (json_of_values v)]\<rparr>\<rparr>"

definition after_ensure ::
  "form_state \<Rightarrow> OnboardingFormValues \<Rightarrow> bool \<Rightarrow> submit_progress \<times> form_state" where
  "after_ensure f v corporationOk =
     (if \<not> corporationOk then (SubmitReturned, f)
      else (SubmitAwaitingPost, post_profile f v))"

definition submit_handler :: "form_state \<Rightarrow> OnboardingFormValues \<Rightarrow> submit_progress \<times> form_state" where
  "submit_handler f v =
     (case ensure_start (f\<lparr>serverError := Null, serverSuccess := Null\<rparr>) of
        (EnsureReturned ok, f1) \<Rightarrow> after_ensure f1 v ok
      | (EnsureAwaiting c n, f1) \<Rightarrow> (SubmitAwaitingLookup c n v, f1))"

definition submit_press :: "form_state \<Rightarrow> submit_progress \<times> form_state" where
  "submit_press f =
     (if onboardingSchema (field_values f) \<noteq> no_errors then
        (SubmitReturned, f\<lparr>errors := onboardingSchema (field_values f)\<rparr>)
      else submit_handler (f\<lparr>errors := no_errors\<rparr>) (field_values f))"

definition submit_lookup_settled ::
  "form_state \<Rightarrow> nat \<Rightarrow> string \<Rightarrow> OnboardingFormValues \<Rightarrow> fetch_outcome \<Rightarrow> submit_progress \<times> form_state" where
  "submit_lookup_settled f c n v out =
     (case ensure_resume f c n out of (ok, f1) \<Rightarrow> after_ensure f1 v ok)"

text \<open>
  How the POST settles: \<open>fetch\<close> rejects, the response is ok, or it is not ok and
  \<open>response.json().catch(() => null)\<close> yields the payload (\<open>Null\<close> when the body does
  not parse).
\<close>

datatype post_outcome = PostRejected | PostOk | PostNotOk jsval

definition submit_post_settled :: "form_state \<Rightarrow> post_outcome \<Rightarrow> form_state" where
  "submit_post_settled f out =
     (case out of
        PostNotOk payload \<Rightarrow>
          f\<lparr>serverError := nullish (opt_get payload ''message'')
                              (JStr ''Submission failed. Review your details and try again.'')\<rparr>
      | PostOk \<Rightarrow>
          (reset_form (f\<lparr>serverSuccess := JStr ''Details submitted successfully.''\<rparr>))
            \<lparr>hook := reset_validation (hook f)\<rparr>
      | PostRejected \<Rightarrow>
          f\<lparr>serverError := JStr ''Unable to submit form right now. Please try again.''\<rparr>)"

text \<open>
  What the component renders below the corporation input and above the button, in the
  order of the JSX: each element with the value it shows.  The two messages are compared
  with \<open>===\<close>, which on strings is equality of the text; the messages of this
  component are strings unless the service sends something else.
\<close>

datatype element =
    ValidatingRow
  | CorporationValid
  | CorporationValidationError jsval
  | CorporationError jsval
  | ServerError jsval
  | ServerSuccess jsval

definition corporationErrorMatchesValidationMessage :: "form_state \<Rightarrow> bool" where
  "corporationErrorMatchesValidationMessage f =
     (truthy (errorMessage (hook f))
      \<and> (case corporationNumberError (errors f) of None \<Rightarrow> Undefined | Some m \<Rightarrow> m)
          = errorMessage (hook f))"

definition render_corporation :: "form_state \<Rightarrow> element list" where
  "render_corporation f =
     (let isCheckingCorporation = (status (hook f) = Loading) in
      (if isCheckingCorporation then [ValidatingRow] else [])
      @ (if \<not> isCheckingCorporation \<and> status (hook f) = Valid then [CorporationValid] else [])
      @ (if \<not> isCheckingCorporation \<and> status (hook f) = Invalid \<and> truthy (errorMessage (hook f))
         then [CorporationValidationError (errorMessage (hook f))] else [])
      @ (case corporationNumberError (errors f) of
           None \<Rightarrow> []
         | Some m \<Rightarrow> if \<not> corporationErrorMatchesValidationMessage f then [CorporationError m] else []))"

definition render_server :: "form_state \<Rightarrow> element list" where
  "render_server f =
     (if truthy (serverError f) then [ServerError (serverError f)] else [])
     @ (if truthy (serverSuccess f) then [ServerSuccess (serverSuccess f)] else [])"

section \<open>Auxiliary notions\<close>

text \<open>
  The controllers a hook refers to were all created before, so that the controller a
  call of \<open>validate\<close> creates is none of them.
\<close>

definition hook_wf :: "hook_state \<Rightarrow> bool" where
  "hook_wf s =
     ((\<forall>c \<in> aborted s. c < controllers s)
      \<and> (case abortRef s of None \<Rightarrow> True | Some c \<Rightarrow> c < controllers s))"

fun rejects :: "fetch_outcome \<Rightarrow> bool" where
  "rejects FetchRejected = True"
| "rejects JsonRejected = True"
| "rejects out = False"

text \<open>The status and the message the hook shows for a result.\<close>

definition status_of :: "CorporationValidationResult \<Rightarrow> CorporationValidationStatus" where
  "status_of r = (if valid r then Valid else Invalid)"

definition errorMessage_of :: "CorporationValidationResult \<Rightarrow> jsval" where
  "errorMessage_of r = (if valid r then Null else nullish (message r) Null)"

text \<open>
  One submit attempt run to its end with nothing else happening in between: the press,
  the lookup settling with \<open>lookup_out\<close> when \<open>validate\<close> had to ask, the POST settling
  with \<open>post_out\<close> when it was sent.  The flag tells whether the POST was sent.
\<close>

definition submit_attempt :: "form_state \<Rightarrow> fetch_outcome \<Rightarrow> post_outcome \<Rightarrow> bool \<times> form_state" where
  "submit_attempt f lookup_out post_out =
     (case submit_press f of
        (SubmitReturned, f1) \<Rightarrow> (False, f1)
      | (SubmitAwaitingPost, f1) \<Rightarrow> (True, submit_post_settled f1 post_out)
      | (SubmitAwaitingLookup c n v, f1) \<Rightarrow>
          (case submit_lookup_settled f1 c n v lookup_out of
             (SubmitAwaitingPost, f2) \<Rightarrow> (True, submit_post_settled f2 post_out)
           | (p, f2) \<Rightarrow> (False, f2)))"

text \<open>
  What the lookup answers for the number when a submit asks: the cached result if there
  is one, otherwise what the request that is sent brings back.  \<open>lookup_requests\<close> is
  the request this costs.
\<close>

definition lookup_says_valid :: "hook_state \<Rightarrow> string \<Rightarrow> fetch_outcome \<Rightarrow> bool" where
  "lookup_says_valid s n lookup_out =
     (case cacheRef s n of
        Some cached \<Rightarrow> valid cached
      | None \<Rightarrow> (case lookup_out of
                   OkJson payload \<Rightarrow> truthy (opt_get payload ''valid'')
                 | out \<Rightarrow> False))"

definition lookup_requests :: "hook_state \<Rightarrow> string \<Rightarrow> request list" where
  "lookup_requests s n = (case cacheRef s n of Some cached \<Rightarrow> [] | None \<Rightarrow> [GET (lookup_url n)])"

section \<open>Scenarios\<close>

text \<open>The values of the repository's test of a successful submission.\<close>

definition helloWorld :: OnboardingFormValues where
  "helloWorld = \<lparr>firstName = ''Hello'', lastName = ''World'', phone = ''+13062776103'',
     corporationNumber = ''826417395''\<rparr>"

text \<open>
  Two lookups in a row on a new hook: \<open>111111111\<close> is asked, then \<open>222222222\<close> while
  the first request is in flight; the second request is answered \<open>{valid: true}\<close>, and
  then a response to the first arrives all the same, with an ok status and the body
  \<open>{valid: false, message: "Corporation not found"}\<close>.
\<close>

definition stale_s1 :: hook_state where
  "stale_s1 = snd (validate_start hook_init ''111111111'')"

definition stale_s2 :: hook_state where
  "stale_s2 = snd (validate_start stale_s1 ''222222222'')"

definition stale_s3 :: hook_state where
  "stale_s3 = snd (validate_resume stale_s2 1 ''222222222'' (OkJson (JObj [(''valid'', JBool True)])))"

definition stale_s4 :: hook_state where
  "stale_s4 = snd (validate_resume stale_s3 0 ''111111111''
     (OkJson (JObj [(''valid'', JBool False), (''message'', JStr ''Corporation not found'')])))"

text \<open>
  A lookup overtaken by a cached one: on a new hook \<open>111111111\<close> is validated and
  answered \<open>{valid: true}\<close>; then \<open>222222222\<close> is asked and, while its request is in
  flight, \<open>111111111\<close> is validated again; at last the request for \<open>222222222\<close> is
  answered \<open>{valid: false, message: "Corporation not found"}\<close>.
\<close>

definition hit_s1 :: hook_state where
  "hit_s1 = snd (validate_start hook_init ''111111111'')"

definition hit_s2 :: hook_state where
  "hit_s2 = snd (validate_resume hit_s1 0 ''111111111'' (OkJson (JObj [(''valid'', JBool True)])))"

definition hit_s3 :: hook_state where
  "hit_s3 = snd (validate_start hit_s2 ''222222222'')"

definition hit_s4 :: hook_state where
  "hit_s4 = snd (validate_start hit_s3 ''111111111'')"

definition hit_s5 :: hook_state where
  "hit_s5 = snd (validate_resume hit_s4 1 ''222222222''
     (OkJson (JObj [(''valid'', JBool False), (''message'', JStr ''Corporation not found'')])))"

text \<open>
  A lookup that fails and is asked again: \<open>123456789\<close> on a new hook, the response is
  not ok, and \<open>validate\<close> is called a second time with the same number.
\<close>

definition refetch_s1 :: hook_state where
  "refetch_s1 = snd (validate_start hook_init ''123456789'')"

definition refetch_s2 :: hook_state where
  "refetch_s2 = snd (validate_resume refetch_s1 0 ''123456789'' NotOk)"

definition refetch_s3 :: hook_state where
  "refetch_s3 = snd (validate_start refetch_s2 ''123456789'')"

text \<open>
  The repository's test of a failing lookup: \<open>123456789\<close> is typed into a new form, the
  field is blurred, and the lookup responds with a status that is not ok.
\<close>

definition fallback_f0 :: form_state where
  "fallback_f0 = form_init\<lparr>field_values := defaultValues\<lparr>corporationNumber := ''123456789''\<rparr>\<rparr>"

definition fallback_f1 :: form_state where
  "fallback_f1 = snd (blur_start fallback_f0)"

definition fallback_f2 :: form_state where
  "fallback_f2 = blur_settled fallback_f1 0 ''123456789'' NotOk"

text \<open>
  A submit that the lookup turns down: a new form holds \<open>helloWorld\<close>, submit is
  pressed, and the lookup answers \<open>{valid: false, message: "Invalid corporation number"}\<close>.
\<close>

definition hello_form :: form_state where
  "hello_form = form_init\<lparr>field_values := helloWorld\<rparr>"

definition rejected_f1 :: form_state where
  "rejected_f1 = snd (submit_press hello_form)"

definition rejected_f2 :: form_state where
  "rejected_f2 = snd (submit_lookup_settled rejected_f1 0 ''826417395'' helloWorld
     (OkJson (JObj [(''valid'', JBool False), (''message'', JStr ''Invalid corporation number'')])))"

text \<open>
  A cached answer used later: \<open>123456789\<close> is validated on a new hook and answered
  \<open>{valid: false, message: "Corporation not found"}\<close>; then the hook is reset and
  \<open>222222222\<close> is validated and answered \<open>{valid: true}\<close>.
\<close>

definition cached_s2 :: hook_state where
  "cached_s2 = snd (validate_resume refetch_s1 0 ''123456789''
     (OkJson (JObj [(''valid'', JBool False), (''message'', JStr ''Corporation not found'')])))"

definition cached_later :: "hook_event list" where
  "cached_later = [Reset, Validate ''222222222'',
     Settle 1 ''222222222'' (OkJson (JObj [(''valid'', JBool True)]))]"

text \<open>
  A body that says neither valid nor invalid: \<open>123456789\<close> is validated on a new hook
  and the response is ok with the body \<open>{error: "maintenance"}\<close>.
\<close>

definition vague_s2 :: hook_state where
  "vague_s2 = snd (validate_resume refetch_s1 0 ''123456789''
     (OkJson (JObj [(''error'', JStr ''maintenance'')])))"

text \<open>
  The same number asked twice at once: on a new hook \<open>123456789\<close> is validated, and
  again while the first request is in flight (a blur followed by a press of submit);
  the second request is answered \<open>{}\<close>; then a response to the first arrives all the
  same, with the body \<open>{valid: true}\<close>.
\<close>

definition replaced_s1 :: hook_state where
  "replaced_s1 = snd (validate_start hook_init ''123456789'')"

definition replaced_s2 :: hook_state where
  "replaced_s2 = snd (validate_start replaced_s1 ''123456789'')"

definition replaced_s3 :: hook_state where
  "replaced_s3 = snd (validate_resume replaced_s2 1 ''123456789'' (OkJson (JObj [])))"

definition replaced_s4 :: hook_state where
  "replaced_s4 = snd (validate_resume replaced_s3 0 ''123456789''
     (OkJson (JObj [(''valid'', JBool True)])))"

text \<open>
  A cancelled lookup on the screen: \<open>111111111\<close> is typed into a new form and the
  field is blurred; \<open>222222222\<close> is typed over it and the field is blurred again,
  which aborts the first request; the first request rejects.
\<close>

definition cancel_f0 :: form_state where
  "cancel_f0 = form_init\<lparr>field_values := defaultValues\<lparr>corporationNumber := ''111111111''\<rparr>\<rparr>"

definition cancel_f1 :: form_state where
  "cancel_f1 = snd (blur_start cancel_f0)"

definition cancel_f2 :: form_state where
  "cancel_f2 = snd (blur_start
     (cancel_f1\<lparr>field_values := (field_values cancel_f1)\<lparr>corporationNumber := ''222222222''\<rparr>\<rparr>))"

definition cancel_f3 :: form_state where
  "cancel_f3 = blur_settled cancel_f2 0 ''111111111'' FetchRejected"

text \<open>
  Two submits at once: the form holds \<open>helloWorld\<close> and its number has been looked up
  on blur and found valid; submit is pressed twice before any response; the first POST
  is answered with a status that is not ok and no body, the second with an ok status.
\<close>

definition overlap_f0 :: form_state where
  "overlap_f0 = blur_settled (snd (blur_start hello_form)) 0 ''826417395''
     (OkJson (JObj [(''valid'', JBool True)]))"

definition overlap_f1 :: form_state where
  "overlap_f1 = snd (submit_press overlap_f0)"

definition overlap_f2 :: form_state where
  "overlap_f2 = snd (submit_press overlap_f1)"

definition overlap_f3 :: form_state where
  "overlap_f3 = submit_post_settled overlap_f2 (PostNotOk Null)"

definition overlap_f4 :: form_state where
  "overlap_f4 = submit_post_settled overlap_f3 PostOk"

text \<open>
  A submit after a failed one: the form holds \<open>helloWorld\<close> and still shows the error
  of an earlier submission.
\<close>

definition retry_form :: form_state where
  "retry_form = hello_form\<lparr>serverError := JStr ''Unable to submit form right now. Please try again.''\<rparr>"

section \<open>Facts about the lookup log\<close>

lemma lookup_url_split: "lookup_url n = lookup_url [] @ n"
  by (simp add: lookup_url_def)

lemma is_lookup_request_GET: "is_lookup_request (GET (lookup_url n)) = nine_digits n"
  unfolding is_lookup_request_def by (simp add: lookup_url_split [of n])

lemma validate_start_lookups:
  "lookups_well_formed s \<Longrightarrow> lookups_well_formed (snd (validate_start s n))"
  by (auto simp: lookups_well_formed_def validate_start_def is_lookup_request_GET
      split: option.splits)

lemma validate_resume_fetch_calls:
  "fetch_calls (snd (validate_resume s c n out)) = fetch_calls s"
  by (cases out) (simp_all add: validate_resume_def Let_def)

lemma hook_step_lookups:
  "lookups_well_formed s \<Longrightarrow> lookups_well_formed (hook_step s ev)"
proof (cases ev)
  case (Validate n)
  assume "lookups_well_formed s"
  with Validate show ?thesis by (simp add: validate_start_lookups)
next
  case (Settle c n out)
  assume "lookups_well_formed s"
  with Settle show ?thesis by (simp add: lookups_well_formed_def validate_resume_fetch_calls)
next
  case Reset
  assume "lookups_well_formed s"
  with Reset show ?thesis by (simp add: lookups_well_formed_def reset_validation_def)
qed

lemma run_hook_lookups:
  "lookups_well_formed s \<Longrightarrow> lookups_well_formed (run_hook s evs)"
  unfolding run_hook_def
  by (induction evs arbitrary: s) (simp_all add: hook_step_lookups)

lemma lookups_well_formed_init: "lookups_well_formed hook_init"
  by (simp add: lookups_well_formed_def hook_init_def)

lemma malformed_never_sent:
  assumes "lookups_well_formed s" and "\<not> nine_digits n"
  shows "GET (lookup_url n) \<notin> set (fetch_calls s)"
proof
  assume "GET (lookup_url n) \<in> set (fetch_calls s)"
  with assms(1) have "is_lookup_request (GET (lookup_url n))"
    by (simp add: lookups_well_formed_def list_all_iff)
  with assms(2) show False by (simp add: is_lookup_request_GET)
qed

lemma blur_malformed:
  "\<not> nine_digits (corporationNumber (field_values f)) \<Longrightarrow>
     fst (blur_start f) = EnsureReturned False \<and> hook (snd (blur_start f)) = hook f"
  by (simp add: blur_start_def ensure_start_def trigger_corporationNumber_def
      corporationNumber_rule_def Let_def)

section \<open>Malformed numbers never reach the network\<close>

text \<open>
  C2.  For every string that does not match \<open>^\d{9}$\<close>, \<open>validate\<close> returns
  \<open>{valid: false}\<close> at once and leaves the hook as it was: no request is issued and
  the status does not become loading.  Consequently, whatever happens to a hook instance
  from its creation on, no GET for such a string is ever sent to the lookup endpoint, and
  the blur of a corporation field holding it stops at the format rule without touching
  the hook.
\<close>

theorem validate_malformed_no_request:
  "\<not> nine_digits n \<Longrightarrow>
     validate_start s n = (Returned \<lparr>valid = False, message = Undefined\<rparr>, s)
     \<and> GET (lookup_url n) \<notin> set (fetch_calls (run_hook hook_init evs))
     \<and> (corporationNumber (field_values f) = n \<longrightarrow>
          fst (blur_start f) = EnsureReturned False \<and> hook (snd (blur_start f)) = hook f)"
  using malformed_never_sent [OF run_hook_lookups [OF lookups_well_formed_init], of n evs]
    blur_malformed [of f]
  by (auto simp add: validate_start_def)

theorem validate_malformed_no_request_witness:
  "\<not> nine_digits ''12345678a''
   \<and> validate_start hook_init ''12345678a''
       = (Returned \<lparr>valid = False, message = Undefined\<rparr>, hook_init)
   \<and> GET (lookup_url ''12345678a'')
       \<notin> set (fetch_calls (run_hook hook_init [Validate ''12345678a'', Validate ''123456789'']))
   \<and> corporationNumber (field_values (form_init\<lparr>field_values := defaultValues\<lparr>corporationNumber := ''12345678a''\<rparr>\<rparr>))
       = ''12345678a''
   \<and> fst (blur_start (form_init\<lparr>field_values := defaultValues\<lparr>corporationNumber := ''12345678a''\<rparr>\<rparr>))
       = EnsureReturned False
   \<and> hook (snd (blur_start (form_init\<lparr>field_values := defaultValues\<lparr>corporationNumber := ''12345678a''\<rparr>\<rparr>)))
       = hook_init"
  using validate_malformed_no_request [of "''12345678a''" hook_init
      "[Validate ''12345678a'', Validate ''123456789'']"
      "form_init\<lparr>field_values := defaultValues\<lparr>corporationNumber := ''12345678a''\<rparr>\<rparr>"]
  by (simp add: nine_digits_def is_digit_def form_init_def)

section \<open>Facts about the cache and the controllers\<close>

lemma nine_digits_examples:
  "nine_digits ''111111111''" "nine_digits ''222222222''" "nine_digits ''123456789''"
  "nine_digits ''826417395''"
  by (simp_all add: nine_digits_def is_digit_def)

lemma validate_start_Awaiting:
  "validate_start s n = (Awaiting c, s1) \<Longrightarrow>
     nine_digits n \<and> cacheRef s n = None \<and> c = controllers s \<and>
     s1 = s\<lparr>aborted := abort_current s, abortRef := Some (controllers s),
            controllers := Suc (controllers s), status := Loading, errorMessage := Null,
            fetch_calls := fetch_calls s @ [GET (lookup_url n)]\<rparr>"
  by (auto simp add: validate_start_def split: if_splits option.splits)

lemma validate_start_cached:
  "cacheRef s n = Some r \<Longrightarrow> nine_digits n \<Longrightarrow>
     validate_start s n
       = (Returned r, s\<lparr>status := status_of r, errorMessage := errorMessage_of r\<rparr>)"
  by (simp add: validate_start_def status_of_def errorMessage_of_def)

lemma validate_start_no_fetch_when_cached:
  "cacheRef s n \<noteq> None \<Longrightarrow>
     fetch_calls (snd (validate_start s n)) = fetch_calls s
     \<and> (\<exists>r. fst (validate_start s n) = Returned r)"
  by (auto simp add: validate_start_def)

lemma validate_resume_refs:
  "aborted (snd (validate_resume s c n out)) = aborted s"
  "abortRef (snd (validate_resume s c n out)) = abortRef s"
  "controllers (snd (validate_resume s c n out)) = controllers s"
  by (cases out; simp add: validate_resume_def Let_def)+

lemma hook_step_cached:
  "cacheRef s n \<noteq> None \<Longrightarrow> cacheRef (hook_step s ev) n \<noteq> None"
proof (cases ev)
  case (Validate m)
  assume "cacheRef s n \<noteq> None"
  with Validate show ?thesis by (simp add: validate_start_def split: option.splits)
next
  case (Settle c m out)
  assume "cacheRef s n \<noteq> None"
  with Settle show ?thesis by (cases out) (simp_all add: validate_resume_def Let_def)
next
  case Reset
  assume "cacheRef s n \<noteq> None"
  with Reset show ?thesis by (simp add: reset_validation_def)
qed

lemma run_hook_cached:
  "cacheRef s n \<noteq> None \<Longrightarrow> cacheRef (run_hook s evs) n \<noteq> None"
  unfolding run_hook_def
proof (induction evs arbitrary: s)
  case Nil
  then show ?case by simp
next
  case (Cons ev evs)
  from Cons.prems have "cacheRef (hook_step s ev) n \<noteq> None" by (rule hook_step_cached)
  then have "cacheRef (foldl hook_step (hook_step s ev) evs) n \<noteq> None" by (rule Cons.IH)
  then show ?case by simp
qed

lemma hook_step_cache_kept:
  "cacheRef s n = Some r \<Longrightarrow> (\<forall>c p. ev \<noteq> Settle c n (OkJson p)) \<Longrightarrow>
     cacheRef (hook_step s ev) n = Some r"
proof (cases ev)
  case (Validate m)
  assume "cacheRef s n = Some r"
  with Validate show ?thesis by (simp add: validate_start_def split: option.splits)
next
  case (Settle c m out)
  assume "cacheRef s n = Some r" and "\<forall>c p. ev \<noteq> Settle c n (OkJson p)"
  with Settle show ?thesis by (cases out) (auto simp add: validate_resume_def Let_def)
next
  case Reset
  assume "cacheRef s n = Some r"
  with Reset show ?thesis by (simp add: reset_validation_def)
qed

lemma run_hook_cache_kept:
  "cacheRef s n = Some r \<Longrightarrow> (\<forall>c p. Settle c n (OkJson p) \<notin> set evs) \<Longrightarrow>
     cacheRef (run_hook s evs) n = Some r"
  unfolding run_hook_def
proof (induction evs arbitrary: s)
  case Nil
  then show ?case by simp
next
  case (Cons ev evs)
  from Cons.prems have "cacheRef (hook_step s ev) n = Some r"
    by (intro hook_step_cache_kept) auto
  moreover from Cons.prems have "\<forall>c p. Settle c n (OkJson p) \<notin> set evs" by auto
  ultimately show ?case using Cons.IH by simp
qed

lemma hook_step_aborted:
  "c \<in> aborted s \<Longrightarrow> c \<in> aborted (hook_step s ev)"
proof (cases ev)
  case (Validate m)
  assume "c \<in> aborted s"
  with Validate show ?thesis
    by (simp add: validate_start_def abort_current_def split: option.splits)
next
  case (Settle c' m out)
  assume "c \<in> aborted s"
  with Settle show ?thesis by (simp add: validate_resume_refs)
next
  case Reset
  assume "c \<in> aborted s"
  with Reset show ?thesis
    by (simp add: reset_validation_def abort_current_def split: option.splits)
qed

lemma run_hook_aborted:
  "c \<in> aborted s \<Longrightarrow> c \<in> aborted (run_hook s evs)"
  unfolding run_hook_def
  by (induction evs arbitrary: s) (simp_all add: hook_step_aborted)

lemma hook_step_wf: "hook_wf s \<Longrightarrow> hook_wf (hook_step s ev)"
proof (cases ev)
  case (Validate m)
  assume "hook_wf s"
  with Validate show ?thesis
    by (auto simp add: hook_wf_def validate_start_def abort_current_def less_Suc_eq
        split: option.splits)
next
  case (Settle c' m out)
  assume "hook_wf s"
  with Settle show ?thesis
    by (simp add: hook_wf_def validate_resume_refs split: option.splits)
next
  case Reset
  assume "hook_wf s"
  with Reset show ?thesis
    by (auto simp add: reset_validation_def abort_current_def hook_wf_def split: option.splits)
qed

text \<open>Every state a hook instance can reach is well formed.\<close>

lemma run_hook_wf: "hook_wf (run_hook hook_init evs)"
proof -
  have "hook_wf s \<Longrightarrow> hook_wf (foldl hook_step s evs)" for s
    by (induction evs arbitrary: s) (simp_all add: hook_step_wf)
  moreover have "hook_wf hook_init" by (simp add: hook_wf_def hook_init_def)
  ultimately show ?thesis by (simp add: run_hook_def)
qed

lemma validate_resume_aborted:
  "c \<in> aborted s \<Longrightarrow> rejects out \<Longrightarrow>
     validate_resume s c n out = (\<lparr>valid = False, message = Undefined\<rparr>, s)"
  by (cases out) (simp_all add: validate_resume_def)

lemma validate_resume_live:
  "c \<notin> aborted s \<Longrightarrow> validate_resume s c n out = (r, s') \<Longrightarrow>
     status s' = status_of r \<and> errorMessage s' = errorMessage_of r"
  by (cases out) (auto simp add: validate_resume_def Let_def status_of_def errorMessage_of_def
      nullish_def fallbackMessage_def)

section \<open>The cache\<close>

text \<open>
  C3 as stated fails.  The claim promises at most one network call for any nine-digit
  number validated twice.  On a new hook, \<open>123456789\<close> is validated and the response
  is not ok; the second call of \<open>validate\<close> with the same number does not return from
  the cache but sends a second request.
\<close>

theorem failed_lookup_is_refetched:
  "fst (validate_start hook_init ''123456789'') = Awaiting 0
   \<and> fst (validate_start refetch_s2 ''123456789'') = Awaiting 1
   \<and> fetch_calls refetch_s3
       = [GET (lookup_url ''123456789''), GET (lookup_url ''123456789'')]"
  by (simp add: refetch_s3_def refetch_s2_def refetch_s1_def validate_start_def
      validate_resume_def hook_init_def nine_digits_examples abort_current_def)

text \<open>
  C3, amended.  For every nine-digit number whose validation settled with an ok response
  carrying a JSON payload, the result is cached, and every later call of \<open>validate\<close>
  for that number, at any moment of the session (at once, after a reset, after other
  lookups), sends no request, returns the result cached for the number, and sets status
  and errorMessage from it: valid and null, or invalid and the result's message.  The
  cached result is the first call's result as long as no response to another request
  for the same number has been applied since.  When the first call itself sent the
  request and the second follows it, the two calls have cost one request in total.
\<close>

theorem cached_second_validation:
  assumes "nine_digits n"
    and "validate_resume s1 c n (OkJson payload) = (r1, s2)"
  shows "cacheRef s2 n = Some r1
       \<and> (\<exists>r. cacheRef (run_hook s2 evs) n = Some r
              \<and> ((\<forall>c' p. Settle c' n (OkJson p) \<notin> set evs) \<longrightarrow> r = r1)
              \<and> validate_start (run_hook s2 evs) n
                  = (Returned r,
                     (run_hook s2 evs)
                       \<lparr>status := (if valid r then Valid else Invalid),
                        errorMessage := (if valid r then Null
                                         else if message r = Undefined \<or> message r = Null then Null
                                         else message r)\<rparr>))
       \<and> fetch_calls (snd (validate_start (run_hook s2 evs) n)) = fetch_calls (run_hook s2 evs)
       \<and> (validate_start s0 n = (Awaiting c, s1) \<longrightarrow>
            fetch_calls (snd (validate_start s2 n)) = fetch_calls s0 @ [GET (lookup_url n)])"
proof -
  from assms(2)
  have s2: "s2 = s1\<lparr>cacheRef := (cacheRef s1)(n \<mapsto> r1), status := status_of r1,
      errorMessage := errorMessage_of r1\<rparr>"
    by (auto simp add: validate_resume_def Let_def status_of_def errorMessage_of_def)
  then have c: "cacheRef s2 n = Some r1" by simp
  have d: "cacheRef (run_hook s2 evs) n \<noteq> None"
    using c by (intro run_hook_cached) simp
  then obtain r where r: "cacheRef (run_hook s2 evs) n = Some r" by auto
  have keep: "(\<forall>c' p. Settle c' n (OkJson p) \<notin> set evs) \<longrightarrow> r = r1"
    using run_hook_cache_kept [OF c, of evs] r by auto
  have call: "validate_start (run_hook s2 evs) n
      = (Returned r,
         (run_hook s2 evs)
           \<lparr>status := (if valid r then Valid else Invalid),
            errorMessage := (if valid r then Null
                             else if message r = Undefined \<or> message r = Null then Null
                             else message r)\<rparr>)"
    using validate_start_cached [OF r assms(1)]
    by (simp add: status_of_def errorMessage_of_def nullish_def)
  have quiet: "fetch_calls (snd (validate_start (run_hook s2 evs) n)) = fetch_calls (run_hook s2 evs)"
    using call by simp
  have count: "fetch_calls (snd (validate_start s2 n)) = fetch_calls s0 @ [GET (lookup_url n)]"
    if "validate_start s0 n = (Awaiting c, s1)"
    using validate_start_cached [OF c assms(1)] s2 validate_start_Awaiting [OF that] by simp
  show ?thesis
    using c r keep call quiet count by blast
qed

theorem cached_second_validation_witness:
  "nine_digits ''123456789''
   \<and> validate_start hook_init ''123456789'' = (Awaiting 0, refetch_s1)
   \<and> validate_resume refetch_s1 0 ''123456789''
        (OkJson (JObj [(''valid'', JBool False), (''message'', JStr ''Corporation not found'')]))
       = (\<lparr>valid = False, message = JStr ''Corporation not found''\<rparr>, cached_s2)
   \<and> (\<forall>c' p. Settle c' ''123456789'' (OkJson p) \<notin> set cached_later)
   \<and> validate_start cached_s2 ''123456789''
       = (Returned \<lparr>valid = False, message = JStr ''Corporation not found''\<rparr>, cached_s2)
   \<and> fetch_calls (snd (validate_start cached_s2 ''123456789''))
       = [GET ''https://fe-hometask-api.qa.vault.tryvault.com/corporation-number/123456789'']
   \<and> status (run_hook cached_s2 cached_later) = Valid
   \<and> errorMessage (run_hook cached_s2 cached_later) = Null
   \<and> fst (validate_start (run_hook cached_s2 cached_later) ''123456789'')
       = Returned \<lparr>valid = False, message = JStr ''Corporation not found''\<rparr>
   \<and> status (snd (validate_start (run_hook cached_s2 cached_later) ''123456789'')) = Invalid
   \<and> errorMessage (snd (validate_start (run_hook cached_s2 cached_later) ''123456789''))
       = JStr ''Corporation not found''
   \<and> fetch_calls (snd (validate_start (run_hook cached_s2 cached_later) ''123456789''))
       = [GET ''https://fe-hometask-api.qa.vault.tryvault.com/corporation-number/123456789'',
          GET ''https://fe-hometask-api.qa.vault.tryvault.com/corporation-number/222222222'']"
proof -
  have h0: "nine_digits ''123456789''" by (rule nine_digits_examples)
  have h1: "validate_start hook_init ''123456789'' = (Awaiting 0, refetch_s1)"
    by (simp add: refetch_s1_def validate_start_def hook_init_def nine_digits_examples)
  have h2: "validate_resume refetch_s1 0 ''123456789''
        (OkJson (JObj [(''valid'', JBool False), (''message'', JStr ''Corporation not found'')]))
       = (\<lparr>valid = False, message = JStr ''Corporation not found''\<rparr>, cached_s2)"
    by (simp add: cached_s2_def validate_resume_def Let_def nullish_def)
  have h3: "\<forall>c' p. Settle c' ''123456789'' (OkJson p) \<notin> set cached_later"
    by (simp add: cached_later_def)
  have before: "status (run_hook cached_s2 cached_later) = Valid"
    "errorMessage (run_hook cached_s2 cached_later) = Null"
    "fetch_calls (run_hook cached_s2 cached_later)
       = [GET ''https://fe-hometask-api.qa.vault.tryvault.com/corporation-number/123456789'',
          GET ''https://fe-hometask-api.qa.vault.tryvault.com/corporation-number/222222222'']"
    "fetch_calls hook_init = []"
    by (simp_all add: run_hook_def cached_later_def cached_s2_def refetch_s1_def
        validate_start_def validate_resume_def reset_validation_def hook_init_def
        nine_digits_examples abort_current_def Let_def nullish_def lookup_url_def
        CORPORATION_ENDPOINT_def)
  have url: "[GET (lookup_url ''123456789'')]
      = [GET ''https://fe-hometask-api.qa.vault.tryvault.com/corporation-number/123456789'']"
    by (simp add: lookup_url_def CORPORATION_ENDPOINT_def)
  have now: "run_hook cached_s2 [] = cached_s2" by (simp add: run_hook_def)
  from cached_second_validation [OF h0 h2, of cached_later hook_init] h3
  have later: "validate_start (run_hook cached_s2 cached_later) ''123456789''
      = (Returned \<lparr>valid = False, message = JStr ''Corporation not found''\<rparr>,
         (run_hook cached_s2 cached_later)
           \<lparr>status := Invalid, errorMessage := JStr ''Corporation not found''\<rparr>)"
    by auto
  from cached_second_validation [OF h0 h2, of "[]" hook_init] h1 now
  have first: "validate_start cached_s2 ''123456789''
      = (Returned \<lparr>valid = False, message = JStr ''Corporation not found''\<rparr>,
         cached_s2\<lparr>status := Invalid, errorMessage := JStr ''Corporation not found''\<rparr>)"
    "fetch_calls (snd (validate_start cached_s2 ''123456789'')) = [GET (lookup_url ''123456789'')]"
    by (auto simp add: before(4))
  have same: "cached_s2\<lparr>status := Invalid, errorMessage := JStr ''Corporation not found''\<rparr>
      = cached_s2"
    by (simp add: cached_s2_def validate_resume_def Let_def nullish_def)
  show ?thesis
    using h0 h1 h2 h3 before later first same url by simp
qed

text \<open>
  C4 as stated fails.  The claim says that a result is stored only when the response
  carries an explicit valid or invalid payload.  On a new hook \<open>123456789\<close> is
  validated and the response is ok with the body \<open>{error: "maintenance"}\<close>, which says
  neither: the number is stored as invalid with the fallback message, and the next call
  is answered from the cache without a request.
\<close>

theorem body_without_valid_is_cached:
  "cacheRef vague_s2 ''123456789''
     = Some \<lparr>valid = False, message = JStr ''Invalid corporation number''\<rparr>
   \<and> fst (validate_start vague_s2 ''123456789'')
       = Returned \<lparr>valid = False, message = JStr ''Invalid corporation number''\<rparr>
   \<and> fetch_calls (snd (validate_start vague_s2 ''123456789''))
       = [GET (lookup_url ''123456789'')]"
  by (simp add: vague_s2_def refetch_s1_def validate_start_def validate_resume_def hook_init_def
      nine_digits_examples abort_current_def Let_def nullish_def fallbackMessage_def)

text \<open>
  C4, amended.  A lookup result is stored in the cache exactly when the response is ok
  and its body parses as JSON, whatever the body says: the result returned for it is
  stored under the number.  When the request fails with a transport error or a response
  that is not ok (or a body that does not parse), the cache is left as it was, in every
  state of the hook; so nothing is cached for that number, and the next call of
  \<open>validate\<close> for the same number sends a new request.
\<close>

theorem failure_not_cached:
  assumes "out = FetchRejected \<or> out = NotOk \<or> out = JsonRejected"
    and "validate_start s0 n = (Awaiting c, s1)"
  shows "cacheRef (snd (validate_resume s c' m out)) = cacheRef s
       \<and> cacheRef (snd (validate_resume s c' m (OkJson payload))) m
           = Some (fst (validate_resume s c' m (OkJson payload)))
       \<and> cacheRef (snd (validate_resume s1 c n out)) n = None
       \<and> fst (validate_start (snd (validate_resume s1 c n out)) n) = Awaiting (Suc c)
       \<and> fetch_calls (snd (validate_start (snd (validate_resume s1 c n out)) n))
           = fetch_calls s0 @ [GET (lookup_url n), GET (lookup_url n)]"
proof -
  note st = validate_start_Awaiting [OF assms(2)]
  have frame: "cacheRef (snd (validate_resume s c' m out)) = cacheRef s" for s c' m
    using assms(1) by (auto simp add: validate_resume_def)
  have stored: "cacheRef (snd (validate_resume s c' m (OkJson payload))) m
           = Some (fst (validate_resume s c' m (OkJson payload)))"
    by (simp add: validate_resume_def Let_def)
  have calls: "fetch_calls (snd (validate_resume s1 c n out)) = fetch_calls s1"
    by (rule validate_resume_fetch_calls)
  have ctl: "controllers (snd (validate_resume s1 c n out)) = Suc c"
    using st by (simp add: validate_resume_refs)
  have none: "cacheRef (snd (validate_resume s1 c n out)) n = None"
    using st by (simp add: frame)
  show ?thesis
    using st frame stored none calls ctl by (simp add: validate_start_def)
qed

theorem failure_not_cached_witness:
  "(NotOk = FetchRejected \<or> NotOk = NotOk \<or> NotOk = JsonRejected)
   \<and> validate_start hook_init ''123456789'' = (Awaiting 0, refetch_s1)
   \<and> cacheRef refetch_s2 ''123456789'' = None
   \<and> fst (validate_start refetch_s2 ''123456789'') = Awaiting 1
   \<and> fetch_calls (snd (validate_start refetch_s2 ''123456789''))
       = [GET ''https://fe-hometask-api.qa.vault.tryvault.com/corporation-number/123456789'',
          GET ''https://fe-hometask-api.qa.vault.tryvault.com/corporation-number/123456789'']
   \<and> cacheRef (snd (validate_resume refetch_s1 0 ''123456789'' (OkJson Null))) ''123456789''
       = Some \<lparr>valid = False, message = JStr ''Invalid corporation number''\<rparr>
   \<and> cacheRef (snd (validate_resume refetch_s1 0 ''123456789'' NotOk)) ''222222222'' = None"
proof -
  have h1: "NotOk = FetchRejected \<or> NotOk = NotOk \<or> NotOk = JsonRejected" by simp
  have h2: "validate_start hook_init ''123456789'' = (Awaiting 0, refetch_s1)"
    by (simp add: refetch_s1_def validate_start_def hook_init_def nine_digits_examples)
  have res: "fst (validate_resume refetch_s1 0 ''123456789'' (OkJson Null))
      = \<lparr>valid = False, message = JStr ''Invalid corporation number''\<rparr>"
    by (simp add: validate_resume_def Let_def nullish_def fallbackMessage_def)
  have init: "fetch_calls hook_init = []" "cacheRef refetch_s1 ''222222222'' = None"
    "cacheRef refetch_s1 ''123456789'' = None"
    by (simp_all add: refetch_s1_def validate_start_def hook_init_def nine_digits_examples)
  have url: "lookup_url ''123456789''
      = ''https://fe-hometask-api.qa.vault.tryvault.com/corporation-number/123456789''"
    by (simp add: lookup_url_def CORPORATION_ENDPOINT_def)
  show ?thesis
    using h1 h2 res init
      failure_not_cached [OF h1 h2, of refetch_s1 0 "''123456789''" Null]
    by (simp add: refetch_s2_def url)
qed

text \<open>
  What \<open>validate\<close> does with an ok response whose payload has no truthy \<open>valid\<close> field:
  it returns \<open>{valid: false, message}\<close>, where the message is the \<open>message\<close> property
  of the payload when the payload is an object that has one other than null, and
  "Invalid corporation number" otherwise; it sets the status to invalid and the
  errorMessage to that message, and stores the result under the number.  The number
  then stays cached whatever happens to the hook, so \<open>validate\<close> never sends a request
  for it again; the stored result is this one as long as no response to another request
  for the same number is applied.
\<close>

lemma payload_message:
  "nullish (opt_get payload ''message'') fallbackMessage
     = (case payload of
          JObj kvs \<Rightarrow>
            (case map_of kvs ''message'' of
               None \<Rightarrow> JStr ''Invalid corporation number''
             | Some m \<Rightarrow> if m = Undefined \<or> m = Null then JStr ''Invalid corporation number'' else m)
        | other \<Rightarrow> JStr ''Invalid corporation number'')"
  by (cases payload) (auto simp add: nullish_def fallbackMessage_def split: option.splits)

lemma falsy_payload_cached_invalid:
  assumes "\<not> truthy (opt_get payload ''valid'')"
    and "validate_resume s c n (OkJson payload) = (r, s1)"
  shows "r = \<lparr>valid = False,
              message = (case payload of
                JObj kvs \<Rightarrow>
                  (case map_of kvs ''message'' of
                     None \<Rightarrow> JStr ''Invalid corporation number''
                   | Some m \<Rightarrow> if m = Undefined \<or> m = Null
                               then JStr ''Invalid corporation number'' else m)
              | other \<Rightarrow> JStr ''Invalid corporation number'')\<rparr>
       \<and> status s1 = Invalid
       \<and> errorMessage s1 = message r
       \<and> cacheRef s1 n = Some r
       \<and> cacheRef (run_hook s1 evs) n \<noteq> None
       \<and> (\<exists>r'. fst (validate_start (run_hook s1 evs) n) = Returned r')
       \<and> fetch_calls (snd (validate_start (run_hook s1 evs) n)) = fetch_calls (run_hook s1 evs)
       \<and> ((\<forall>c' p. Settle c' n (OkJson p) \<notin> set evs) \<longrightarrow>
            cacheRef (run_hook s1 evs) n = Some r)"
proof -
  from assms
  have r0: "r = \<lparr>valid = False, message = nullish (opt_get payload ''message'') fallbackMessage\<rparr>"
    and s1: "s1 = s\<lparr>cacheRef := (cacheRef s)(n \<mapsto> r), status := Invalid,
                 errorMessage := nullish (message r) Null\<rparr>"
    by (auto simp add: validate_resume_def Let_def)
  have m: "nullish (message r) Null = message r"
    by (simp add: r0 nullish_def fallbackMessage_def)
  have c: "cacheRef s1 n = Some r" by (simp add: s1)
  then have d: "cacheRef (run_hook s1 evs) n \<noteq> None" by (intro run_hook_cached) simp
  have r: "r = \<lparr>valid = False,
              message = (case payload of
                JObj kvs \<Rightarrow>
                  (case map_of kvs ''message'' of
                     None \<Rightarrow> JStr ''Invalid corporation number''
                   | Some m \<Rightarrow> if m = Undefined \<or> m = Null
                               then JStr ''Invalid corporation number'' else m)
              | other \<Rightarrow> JStr ''Invalid corporation number'')\<rparr>"
    using r0 by (simp only: payload_message)
  have st: "status s1 = Invalid" "errorMessage s1 = message r"
    using s1 m by simp_all
  show ?thesis
    using r st c d validate_start_no_fetch_when_cached [OF d]
      run_hook_cache_kept [OF c, of evs]
    by blast
qed

lemma falsy_payload_examples:
  "fst (validate_resume refetch_s1 0 ''123456789''
        (OkJson (JObj [(''valid'', JBool False), (''message'', JStr ''Corporation not found'')])))
     = \<lparr>valid = False, message = JStr ''Corporation not found''\<rparr>"
  "fst (validate_resume refetch_s1 0 ''123456789'' (OkJson (JObj [])))
     = \<lparr>valid = False, message = JStr ''Invalid corporation number''\<rparr>"
  "fst (validate_resume refetch_s1 0 ''123456789''
        (OkJson (JObj [(''valid'', JNum 0), (''message'', Null)])))
     = \<lparr>valid = False, message = JStr ''Invalid corporation number''\<rparr>"
  "fst (validate_resume refetch_s1 0 ''123456789'' (OkJson Null))
     = \<lparr>valid = False, message = JStr ''Invalid corporation number''\<rparr>"
  by (simp_all add: validate_resume_def Let_def nullish_def fallbackMessage_def)

text \<open>
  C10.  The claim: an ok response whose payload has no truthy \<open>valid\<close> field is
  cached as an invalid result for that number for the rest of the session.  The code
  stores it, but does not keep it: a response is applied and stored without a look at
  its controller, so the response to an older, aborted request for the same number
  replaces the entry.  On a new hook \<open>123456789\<close> is validated twice at once (the
  second call aborts the first request); the second request is answered \<open>{}\<close> and the
  number is cached as invalid with the fallback message; then the response
  \<open>{valid: true}\<close> to the first request arrives, and the cache holds a valid result
  for the number, which is what \<open>validate\<close> answers from then on.
\<close>

theorem late_response_replaces_cached_result:
  "fst (validate_start hook_init ''123456789'') = Awaiting 0
   \<and> fst (validate_start replaced_s1 ''123456789'') = Awaiting 1
   \<and> 0 \<in> aborted replaced_s2
   \<and> fst (validate_resume replaced_s2 1 ''123456789'' (OkJson (JObj [])))
       = \<lparr>valid = False, message = JStr ''Invalid corporation number''\<rparr>
   \<and> status replaced_s3 = Invalid
   \<and> cacheRef replaced_s3 ''123456789''
       = Some \<lparr>valid = False, message = JStr ''Invalid corporation number''\<rparr>
   \<and> cacheRef replaced_s4 ''123456789'' = Some \<lparr>valid = True, message = Undefined\<rparr>
   \<and> status replaced_s4 = Valid
   \<and> fst (validate_start replaced_s4 ''123456789'')
       = Returned \<lparr>valid = True, message = Undefined\<rparr>"
  by (simp add: replaced_s4_def replaced_s3_def replaced_s2_def replaced_s1_def
      validate_start_def validate_resume_def hook_init_def nine_digits_examples
      abort_current_def Let_def nullish_def fallbackMessage_def)

section \<open>Cancellation\<close>

text \<open>
  C1.  The claim: when a second call of \<open>validate\<close> starts before the first lookup
  resolves, the first request is cancelled and its resolution never updates status or
  errorMessage, so that after both settle the hook shows the second lookup's result.
  The code aborts the first controller, but reads \<open>controller.signal.aborted\<close> only in
  its catch branch: a response that reaches it is applied whether or not its controller
  was aborted.  On a new hook \<open>111111111\<close> is asked and then \<open>222222222\<close>, which
  aborts the first controller; the second lookup is answered valid and the hook shows
  valid; then the response to the first arrives, and the hook shows invalid with the
  first lookup's message, and has cached it.
\<close>

theorem late_response_overwrites_state:
  "fst (validate_start hook_init ''111111111'') = Awaiting 0
   \<and> fst (validate_start stale_s1 ''222222222'') = Awaiting 1
   \<and> 0 \<in> aborted stale_s2
   \<and> status stale_s3 = Valid \<and> errorMessage stale_s3 = Null
   \<and> fst (validate_resume stale_s3 0 ''111111111''
        (OkJson (JObj [(''valid'', JBool False), (''message'', JStr ''Corporation not found'')])))
       = \<lparr>valid = False, message = JStr ''Corporation not found''\<rparr>
   \<and> status stale_s4 = Invalid \<and> errorMessage stale_s4 = JStr ''Corporation not found''
   \<and> cacheRef stale_s4 ''111111111''
       = Some \<lparr>valid = False, message = JStr ''Corporation not found''\<rparr>
   \<and> status (snd (validate_resume stale_s3 0 ''111111111'' NotOk)) = Invalid
   \<and> errorMessage (snd (validate_resume stale_s3 0 ''111111111'' NotOk))
       = JStr ''Invalid corporation number''"
  by (simp add: stale_s4_def stale_s3_def stale_s2_def stale_s1_def validate_start_def
      validate_resume_def hook_init_def nine_digits_examples abort_current_def Let_def
      nullish_def fallbackMessage_def)

text \<open>
  The same claim is missed in two more places.  A call of \<open>validate\<close> that is answered
  from the cache returns before the line that aborts, so it leaves the request in flight
  alive: \<open>111111111\<close> has been validated, \<open>222222222\<close> is asked, and while its
  request is in flight \<open>111111111\<close> is validated again and answered valid from the
  cache; when the request is answered, the hook shows invalid with the message for
  \<open>222222222\<close>, the result of the first of the two lookups.
\<close>

lemma cached_call_leaves_request_in_flight:
  "fst (validate_start hit_s2 ''222222222'') = Awaiting 1
   \<and> fst (validate_start hit_s3 ''111111111'') = Returned \<lparr>valid = True, message = Undefined\<rparr>
   \<and> 1 \<notin> aborted hit_s4
   \<and> status hit_s4 = Valid \<and> errorMessage hit_s4 = Null
   \<and> status hit_s5 = Invalid \<and> errorMessage hit_s5 = JStr ''Corporation not found''"
  by (simp add: hit_s5_def hit_s4_def hit_s3_def hit_s2_def hit_s1_def validate_start_def
      validate_resume_def hook_init_def nine_digits_examples abort_current_def Let_def
      nullish_def fallbackMessage_def)

lemma cache_hit_does_not_abort:
  "cacheRef s n \<noteq> None \<Longrightarrow> aborted (snd (validate_start s n)) = aborted s"
  by (auto simp add: validate_start_def)

text \<open>
  And an error does surface from a cancelled request, even when it rejects as an aborted
  fetch does: its call returns \<open>{valid: false}\<close> without a message, and
  \<open>ensureCorporationValid\<close> makes that the error of the field with its own default
  message.  \<open>111111111\<close> is typed and blurred, \<open>222222222\<close> is typed over it and
  blurred; the first request rejects, and while the second lookup is still loading the
  field shows "Invalid corporation number".
\<close>

lemma cancelled_call_sets_field_error:
  "c \<in> aborted (hook f) \<Longrightarrow> rejects out \<Longrightarrow>
     ensure_resume f c n out
       = (False, f\<lparr>errors := (errors f)\<lparr>corporationNumberError :=
                     Some (JStr ''Invalid corporation number'')\<rparr>\<rparr>)"
  by (simp add: ensure_resume_def validate_resume_aborted ensure_finish_def
      setError_corporationNumber_def nullish_def)

lemma cancelled_lookup_shows_field_error:
  "fst (blur_start cancel_f0) = EnsureAwaiting 0 ''111111111''
   \<and> 0 \<in> aborted (hook cancel_f2)
   \<and> status (hook cancel_f3) = Loading
   \<and> render_corporation cancel_f3
       = [ValidatingRow, CorporationError (JStr ''Invalid corporation number'')]"
  by (simp add: cancel_f3_def cancel_f2_def cancel_f1_def cancel_f0_def blur_start_def
      blur_settled_def ensure_start_def ensure_resume_def ensure_finish_def
      trigger_corporationNumber_def corporationNumber_rule_def nine_digits_examples
      validate_start_def validate_resume_def form_init_def hook_init_def defaultValues_def
      setError_corporationNumber_def nullish_def render_corporation_def
      corporationErrorMatchesValidationMessage_def abort_current_def Let_def)

text \<open>
  What the abort does achieve.  When two calls of \<open>validate\<close> both go to the network,
  the second aborts the first's controller and not its own; and if the first request
  then settles by rejecting, at whatever later moment, its call returns
  \<open>{valid: false}\<close> with no message and leaves the hook exactly as it was, so that in
  either order of settling the hook ends in the state the second lookup alone produces.
\<close>

lemma cancelled_lookup_discarded:
  assumes wf: "hook_wf s0"
    and first: "validate_start s0 n1 = (Awaiting c1, s1)"
    and second: "validate_start s1 n2 = (Awaiting c2, s2)"
    and rej: "rejects out1"
  shows "c1 \<in> aborted s2 \<and> c2 \<notin> aborted s2
       \<and> validate_resume (run_hook s2 evs) c1 n1 out1
           = (\<lparr>valid = False, message = Undefined\<rparr>, run_hook s2 evs)
       \<and> status (snd (validate_resume s2 c2 n2 out2))
           = status_of (fst (validate_resume s2 c2 n2 out2))
       \<and> errorMessage (snd (validate_resume s2 c2 n2 out2))
           = errorMessage_of (fst (validate_resume s2 c2 n2 out2))
       \<and> snd (validate_resume (snd (validate_resume s2 c1 n1 out1)) c2 n2 out2)
           = snd (validate_resume s2 c2 n2 out2)
       \<and> snd (validate_resume (snd (validate_resume s2 c2 n2 out2)) c1 n1 out1)
           = snd (validate_resume s2 c2 n2 out2)"
proof -
  note a1 = validate_start_Awaiting [OF first]
  note a2 = validate_start_Awaiting [OF second]
  from a1 a2 have in1: "c1 \<in> aborted s2"
    by (simp add: abort_current_def)
  from wf a1 a2 have out2: "c2 \<notin> aborted s2"
    by (auto simp add: hook_wf_def abort_current_def split: option.splits)
  have later: "validate_resume (run_hook s2 evs) c1 n1 out1
           = (\<lparr>valid = False, message = Undefined\<rparr>, run_hook s2 evs)"
    using run_hook_aborted [OF in1] rej by (rule validate_resume_aborted)
  have now: "validate_resume s2 c1 n1 out1 = (\<lparr>valid = False, message = Undefined\<rparr>, s2)"
    using in1 rej by (rule validate_resume_aborted)
  have in1': "c1 \<in> aborted (snd (validate_resume s2 c2 n2 out2))"
    using in1 by (simp add: validate_resume_refs)
  have after: "validate_resume (snd (validate_resume s2 c2 n2 out2)) c1 n1 out1
      = (\<lparr>valid = False, message = Undefined\<rparr>, snd (validate_resume s2 c2 n2 out2))"
    using in1' rej by (rule validate_resume_aborted)
  have live: "status (snd (validate_resume s2 c2 n2 out2))
         = status_of (fst (validate_resume s2 c2 n2 out2))
       \<and> errorMessage (snd (validate_resume s2 c2 n2 out2))
         = errorMessage_of (fst (validate_resume s2 c2 n2 out2))"
    using validate_resume_live [OF out2, of n2 out2]
    by (cases "validate_resume s2 c2 n2 out2") simp
  show ?thesis using in1 out2 later now after live by simp
qed

section \<open>Facts about the submit handler\<close>

lemma helloWorld_ok: "onboardingSchema helloWorld = no_errors"
  by (simp add: onboardingSchema_def helloWorld_def no_errors_def firstName_rule_def
      lastName_rule_def phone_rule_def phone_re_def corporationNumber_rule_def nine_digits_def
      is_digit_def)

lemma schema_ok_nine_digits:
  "onboardingSchema v = no_errors \<Longrightarrow> nine_digits (corporationNumber v)"
  by (simp add: onboardingSchema_def no_errors_def corporationNumber_rule_def split: if_splits)

lemma ensure_finish_frame:
  "field_values (snd (ensure_finish f r)) = field_values f"
  "serverError (snd (ensure_finish f r)) = serverError f"
  "serverSuccess (snd (ensure_finish f r)) = serverSuccess f"
  "hook (snd (ensure_finish f r)) = hook f"
  by (simp_all add: ensure_finish_def setError_corporationNumber_def
      clearErrors_corporationNumber_def)

lemma ensure_start_frame:
  "field_values (snd (ensure_start f)) = field_values f"
  "serverError (snd (ensure_start f)) = serverError f"
  "serverSuccess (snd (ensure_start f)) = serverSuccess f"
  by (simp_all add: ensure_start_def trigger_corporationNumber_def Let_def ensure_finish_def
      setError_corporationNumber_def clearErrors_corporationNumber_def
      split: prod.splits validate_progress.splits)

lemma ensure_resume_frame:
  "field_values (snd (ensure_resume f c n out)) = field_values f"
  "serverError (snd (ensure_resume f c n out)) = serverError f"
  "serverSuccess (snd (ensure_resume f c n out)) = serverSuccess f"
  by (simp_all add: ensure_resume_def ensure_finish_frame split: prod.splits)

lemma after_ensure_frame:
  "field_values (snd (after_ensure f v ok)) = field_values f"
  "serverError (snd (after_ensure f v ok)) = serverError f"
  "serverSuccess (snd (after_ensure f v ok)) = serverSuccess f"
  by (simp_all add: after_ensure_def post_profile_def)

lemma submit_handler_frame:
  "field_values (snd (submit_handler f v)) = field_values f"
  "serverError (snd (submit_handler f v)) = Null"
  "serverSuccess (snd (submit_handler f v)) = Null"
proof -
  let ?g = "f\<lparr>serverError := Null, serverSuccess := Null\<rparr>"
  obtain p f1 where e: "ensure_start ?g = (p, f1)" by (cases "ensure_start ?g")
  have fr: "field_values f1 = field_values f" "serverError f1 = Null" "serverSuccess f1 = Null"
    using ensure_start_frame [of ?g] e by simp_all
  show "field_values (snd (submit_handler f v)) = field_values f"
    "serverError (snd (submit_handler f v)) = Null"
    "serverSuccess (snd (submit_handler f v)) = Null"
    using e fr by (cases p; simp add: submit_handler_def after_ensure_frame)+
qed

lemma submit_press_frame:
  "field_values (snd (submit_press f)) = field_values f"
  "onboardingSchema (field_values f) = no_errors \<Longrightarrow> serverError (snd (submit_press f)) = Null"
  "onboardingSchema (field_values f) = no_errors \<Longrightarrow> serverSuccess (snd (submit_press f)) = Null"
  "onboardingSchema (field_values f) \<noteq> no_errors \<Longrightarrow>
     submit_press f = (SubmitReturned, f\<lparr>errors := onboardingSchema (field_values f)\<rparr>)"
  by (simp_all add: submit_press_def submit_handler_frame)

lemma submit_lookup_settled_frame:
  "field_values (snd (submit_lookup_settled f c n v out)) = field_values f"
  "serverError (snd (submit_lookup_settled f c n v out)) = serverError f"
  "serverSuccess (snd (submit_lookup_settled f c n v out)) = serverSuccess f"
proof -
  obtain ok f1 where e: "ensure_resume f c n out = (ok, f1)"
    by (cases "ensure_resume f c n out")
  have fr: "field_values f1 = field_values f" "serverError f1 = serverError f"
    "serverSuccess f1 = serverSuccess f"
    using ensure_resume_frame [of f c n out] e by simp_all
  show "field_values (snd (submit_lookup_settled f c n v out)) = field_values f"
    "serverError (snd (submit_lookup_settled f c n v out)) = serverError f"
    "serverSuccess (snd (submit_lookup_settled f c n v out)) = serverSuccess f"
    using e fr by (simp_all add: submit_lookup_settled_def after_ensure_frame)
qed

lemma submit_post_settled_outcome:
  "serverError f = Null \<Longrightarrow> serverSuccess f = Null \<Longrightarrow>
     (serverError (submit_post_settled f po) \<noteq> Null)
       \<noteq> (serverSuccess (submit_post_settled f po) \<noteq> Null)"
  by (cases po) (simp_all add: submit_post_settled_def reset_form_def nullish_def)

lemma submit_post_settled_values:
  "field_values (submit_post_settled f po)
     = (if po = PostOk then defaultValues else field_values f)"
  by (cases po) (simp_all add: submit_post_settled_def reset_form_def)

lemma submit_attempt_alt:
  "submit_attempt f lo po =
    (case submit_press f of
        (SubmitReturned, f1) \<Rightarrow> (False, f1)
      | (SubmitAwaitingPost, f1) \<Rightarrow> (True, submit_post_settled f1 po)
      | (SubmitAwaitingLookup c n v, f1) \<Rightarrow>
          (if fst (submit_lookup_settled f1 c n v lo) = SubmitAwaitingPost
           then (True, submit_post_settled (snd (submit_lookup_settled f1 c n v lo)) po)
           else (False, snd (submit_lookup_settled f1 c n v lo))))"
  by (simp add: submit_attempt_def split: prod.splits submit_progress.splits)

text \<open>
  A submit of values that pass the schema, with a lookup that says valid, gets to the
  POST: the attempt ends in \<open>submit_post_settled\<close> on a state \<open>g\<close> that has sent the
  lookup (if the number was not cached) and the POST, and holds the values unchanged.
\<close>

lemma submit_valid_pre_post:
  assumes ok: "onboardingSchema (field_values f) = no_errors"
    and lv: "lookup_says_valid (hook f) (corporationNumber (field_values f)) lo"
  shows "\<exists>g. submit_attempt f lo po = (True, submit_post_settled g po)
           \<and> fetch_calls (hook g) = fetch_calls (hook f)
               @ lookup_requests (hook f) (corporationNumber (field_values f))
               @ [POST PROFILE_ENDPOINT (json_of_values (field_values f))]
           \<and> serverError g = Null \<and> serverSuccess g = Null
           \<and> field_values g = field_values f"
proof -
  note nd = schema_ok_nine_digits [OF ok]
  show ?thesis
  proof (cases "cacheRef (hook f) (corporationNumber (field_values f))")
    case None
    with lv obtain payload where lo: "lo = OkJson payload"
      and t: "truthy (opt_get payload ''valid'')"
      by (auto simp add: lookup_says_valid_def split: fetch_outcome.splits)
    let ?g = "snd (submit_lookup_settled (snd (submit_press f)) (controllers (hook f))
      (corporationNumber (field_values f)) (field_values f) lo)"
    have "submit_attempt f lo po = (True, submit_post_settled ?g po)"
      using ok nd None lo t
      by (simp add: submit_attempt_def submit_press_def submit_handler_def ensure_start_def
          trigger_corporationNumber_def corporationNumber_rule_def validate_start_def
          submit_lookup_settled_def ensure_resume_def validate_resume_def ensure_finish_def
          clearErrors_corporationNumber_def after_ensure_def post_profile_def Let_def)
    moreover have "fetch_calls (hook ?g)
       = fetch_calls (hook f) @ lookup_requests (hook f) (corporationNumber (field_values f))
               @ [POST PROFILE_ENDPOINT (json_of_values (field_values f))]"
      using ok nd None lo t
      by (simp add: submit_press_def submit_handler_def ensure_start_def
          trigger_corporationNumber_def corporationNumber_rule_def validate_start_def
          submit_lookup_settled_def ensure_resume_def validate_resume_def ensure_finish_def
          clearErrors_corporationNumber_def after_ensure_def post_profile_def Let_def
          lookup_requests_def)
    moreover have "serverError ?g = Null \<and> serverSuccess ?g = Null
        \<and> field_values ?g = field_values f"
      using ok by (simp add: submit_lookup_settled_frame submit_press_frame)
    ultimately show ?thesis by blast
  next
    case (Some cached)
    with lv have v: "valid cached" by (simp add: lookup_says_valid_def)
    have "submit_attempt f lo po = (True, submit_post_settled (snd (submit_press f)) po)"
      using ok nd Some v
      by (simp add: submit_attempt_def submit_press_def submit_handler_def ensure_start_def
          trigger_corporationNumber_def corporationNumber_rule_def validate_start_def
          ensure_finish_def clearErrors_corporationNumber_def after_ensure_def post_profile_def
          Let_def)
    moreover have "fetch_calls (hook (snd (submit_press f)))
       = fetch_calls (hook f) @ lookup_requests (hook f) (corporationNumber (field_values f))
               @ [POST PROFILE_ENDPOINT (json_of_values (field_values f))]"
      using ok nd Some v
      by (simp add: submit_press_def submit_handler_def ensure_start_def
          trigger_corporationNumber_def corporationNumber_rule_def validate_start_def
          ensure_finish_def clearErrors_corporationNumber_def after_ensure_def post_profile_def
          Let_def lookup_requests_def)
    moreover have "serverError (snd (submit_press f)) = Null
        \<and> serverSuccess (snd (submit_press f)) = Null
        \<and> field_values (snd (submit_press f)) = field_values f"
      using ok by (simp add: submit_press_frame)
    ultimately show ?thesis by blast
  qed
qed

section \<open>The failing lookup on the screen\<close>

text \<open>
  C5.  The claim: when the lookup responds with a status that is not ok, exactly one
  error message is rendered for the corporation field, with the text "Unable to validate
  corporation number right now.", and the plain format-error element is not rendered.
  The code renders exactly one element for the field, the validation error, and no
  format-error element; but its text is the hook's fallback "Invalid corporation
  number".  The text the claim names, which the repository's own test expects, occurs
  nowhere in the code.
\<close>

theorem lookup_not_ok_renders_fallback:
  "fst (blur_start fallback_f0) = EnsureAwaiting 0 ''123456789''
   \<and> fetch_calls (hook fallback_f1) = [GET (lookup_url ''123456789'')]
   \<and> render_corporation fallback_f2
       = [CorporationValidationError (JStr ''Invalid corporation number'')]
   \<and> render_corporation fallback_f2
       \<noteq> [CorporationValidationError (JStr ''Unable to validate corporation number right now.'')]"
  by (simp add: fallback_f2_def fallback_f1_def fallback_f0_def blur_start_def blur_settled_def
      ensure_start_def ensure_resume_def ensure_finish_def trigger_corporationNumber_def
      corporationNumber_rule_def nine_digits_examples validate_start_def validate_resume_def
      form_init_def hook_init_def defaultValues_def setError_corporationNumber_def nullish_def
      fallbackMessage_def render_corporation_def corporationErrorMatchesValidationMessage_def
      abort_current_def Let_def)

section \<open>The outcome of a submit\<close>

text \<open>
  C6 as stated fails.  The claim promises that after every submit attempt exactly one of
  serverError and serverSuccess is non-null.  A new form holds values that pass the
  schema, submit is pressed, and the lookup answers that the number is invalid: the
  handler returns at its corporation check, and the attempt is over with both null.
\<close>

theorem rejected_number_sets_neither:
  "fst (submit_press hello_form) = SubmitAwaitingLookup 0 ''826417395'' helloWorld
   \<and> fst (submit_lookup_settled rejected_f1 0 ''826417395'' helloWorld
        (OkJson (JObj [(''valid'', JBool False), (''message'', JStr ''Invalid corporation number'')])))
       = SubmitReturned
   \<and> serverError rejected_f2 = Null \<and> serverSuccess rejected_f2 = Null"
  by (simp add: rejected_f2_def rejected_f1_def hello_form_def submit_press_def helloWorld_ok
      submit_handler_def ensure_start_def trigger_corporationNumber_def corporationNumber_rule_def
      validate_start_def form_init_def hook_init_def submit_lookup_settled_def ensure_resume_def
      validate_resume_def ensure_finish_def after_ensure_def setError_corporationNumber_def Let_def
      nullish_def fallbackMessage_def abort_current_def)
     (simp add: helloWorld_def nine_digits_examples)

text \<open>
  C6, amended.  For a submit attempt that passes the synchronous validation and runs
  with no other submit attempt overlapping it: the handler starts by clearing
  serverError and serverSuccess to null, whatever they held; if the attempt gets as far
  as the POST, exactly one of the two is non-null once the POST has settled (never both,
  never neither), serverSuccess after an ok response and serverError otherwise; if the
  attempt stops at the corporation check, both are null.
\<close>

theorem submission_outcome:
  assumes "onboardingSchema (field_values f) = no_errors"
  shows "serverError (snd (submit_press f)) = Null
       \<and> serverSuccess (snd (submit_press f)) = Null
       \<and> (fst (submit_attempt f lo po) \<longrightarrow>
            (serverError (snd (submit_attempt f lo po)) \<noteq> Null)
              \<noteq> (serverSuccess (snd (submit_attempt f lo po)) \<noteq> Null))
       \<and> (fst (submit_attempt f lo po) \<and> po = PostOk \<longrightarrow>
            serverError (snd (submit_attempt f lo po)) = Null
            \<and> serverSuccess (snd (submit_attempt f lo po)) \<noteq> Null)
       \<and> (fst (submit_attempt f lo po) \<and> po \<noteq> PostOk \<longrightarrow>
            serverError (snd (submit_attempt f lo po)) \<noteq> Null
            \<and> serverSuccess (snd (submit_attempt f lo po)) = Null)
       \<and> (\<not> fst (submit_attempt f lo po) \<longrightarrow>
            serverError (snd (submit_attempt f lo po)) = Null
            \<and> serverSuccess (snd (submit_attempt f lo po)) = Null)"
proof -
  obtain p f1 where sp: "submit_press f = (p, f1)" by (cases "submit_press f")
  have f1: "serverError f1 = Null" "serverSuccess f1 = Null"
    using submit_press_frame(2,3) [OF assms] sp by simp_all
  have settled: "(serverError (submit_post_settled g po) \<noteq> Null)
        \<noteq> (serverSuccess (submit_post_settled g po) \<noteq> Null)
      \<and> (po = PostOk \<longrightarrow> serverError (submit_post_settled g po) = Null
            \<and> serverSuccess (submit_post_settled g po) \<noteq> Null)
      \<and> (po \<noteq> PostOk \<longrightarrow> serverError (submit_post_settled g po) \<noteq> Null
            \<and> serverSuccess (submit_post_settled g po) = Null)"
    if "serverError g = Null" and "serverSuccess g = Null" for g
    using that by (cases po) (simp_all add: submit_post_settled_def reset_form_def nullish_def)
  have "(fst (submit_attempt f lo po) \<longrightarrow>
            (serverError (snd (submit_attempt f lo po)) \<noteq> Null)
              \<noteq> (serverSuccess (snd (submit_attempt f lo po)) \<noteq> Null))
       \<and> (fst (submit_attempt f lo po) \<and> po = PostOk \<longrightarrow>
            serverError (snd (submit_attempt f lo po)) = Null
            \<and> serverSuccess (snd (submit_attempt f lo po)) \<noteq> Null)
       \<and> (fst (submit_attempt f lo po) \<and> po \<noteq> PostOk \<longrightarrow>
            serverError (snd (submit_attempt f lo po)) \<noteq> Null
            \<and> serverSuccess (snd (submit_attempt f lo po)) = Null)
       \<and> (\<not> fst (submit_attempt f lo po) \<longrightarrow>
            serverError (snd (submit_attempt f lo po)) = Null
            \<and> serverSuccess (snd (submit_attempt f lo po)) = Null)"
  proof (cases p)
    case SubmitReturned
    with sp f1 show ?thesis by (simp add: submit_attempt_alt)
  next
    case (SubmitAwaitingLookup c n v)
    let ?g = "snd (submit_lookup_settled f1 c n v lo)"
    have g: "serverError ?g = Null" "serverSuccess ?g = Null"
      using f1 by (simp_all add: submit_lookup_settled_frame)
    show ?thesis
      using sp SubmitAwaitingLookup g settled [OF g]
      by (simp add: submit_attempt_alt)
  next
    case SubmitAwaitingPost
    with sp f1 settled [OF f1] show ?thesis
      by (simp add: submit_attempt_alt)
  qed
  moreover have "serverError (snd (submit_press f)) = Null
      \<and> serverSuccess (snd (submit_press f)) = Null"
    using f1 sp by simp
  ultimately show ?thesis by blast
qed

lemmas submit_defs =
  submit_attempt_def submit_press_def submit_handler_def ensure_start_def
  trigger_corporationNumber_def corporationNumber_rule_def validate_start_def
  submit_lookup_settled_def ensure_resume_def validate_resume_def ensure_finish_def
  clearErrors_corporationNumber_def setError_corporationNumber_def after_ensure_def
  post_profile_def submit_post_settled_def reset_form_def reset_validation_def
  abort_current_def nullish_def fallbackMessage_def Let_def

lemma hello_form_fields:
  "field_values hello_form = helloWorld" "corporationNumber helloWorld = ''826417395''"
  "hook hello_form = hook_init" "serverError hello_form = Null" "serverSuccess hello_form = Null"
  by (simp_all add: hello_form_def helloWorld_def form_init_def)

lemma retry_form_fields:
  "field_values retry_form = helloWorld" "hook retry_form = hook_init"
  "serverError retry_form = JStr ''Unable to submit form right now. Please try again.''"
  "serverSuccess retry_form = Null"
  by (simp_all add: retry_form_def hello_form_def form_init_def)

theorem submission_outcome_witness:
  "onboardingSchema (field_values retry_form) = no_errors
   \<and> serverError retry_form = JStr ''Unable to submit form right now. Please try again.''
   \<and> serverError (snd (submit_press retry_form)) = Null
   \<and> serverSuccess (snd (submit_press retry_form)) = Null
   \<and> fst (submit_attempt retry_form (OkJson (JObj [(''valid'', JBool True)])) PostOk)
   \<and> serverError (snd (submit_attempt retry_form (OkJson (JObj [(''valid'', JBool True)])) PostOk))
       = Null
   \<and> serverSuccess (snd (submit_attempt retry_form (OkJson (JObj [(''valid'', JBool True)])) PostOk))
       = JStr ''Details submitted successfully.''
   \<and> fst (submit_attempt retry_form (OkJson (JObj [(''valid'', JBool True)])) (PostNotOk Null))
   \<and> serverError (snd (submit_attempt retry_form (OkJson (JObj [(''valid'', JBool True)]))
        (PostNotOk Null)))
       = JStr ''Submission failed. Review your details and try again.''
   \<and> serverSuccess (snd (submit_attempt retry_form (OkJson (JObj [(''valid'', JBool True)]))
        (PostNotOk Null)))
       = Null
   \<and> \<not> fst (submit_attempt retry_form (OkJson (JObj [(''valid'', JBool False)])) PostOk)
   \<and> serverError (snd (submit_attempt retry_form (OkJson (JObj [(''valid'', JBool False)])) PostOk))
       = Null
   \<and> serverSuccess (snd (submit_attempt retry_form (OkJson (JObj [(''valid'', JBool False)])) PostOk))
       = Null"
proof -
  have h: "onboardingSchema (field_values retry_form) = no_errors"
    by (simp add: retry_form_fields helloWorld_ok)
  have posted: "fst (submit_attempt retry_form (OkJson (JObj [(''valid'', JBool True)])) po)" for po
    using h
    by (cases po)
      (simp_all add: submit_defs retry_form_fields hello_form_fields nine_digits_examples
        hook_init_def)
  have success: "serverSuccess (snd (submit_attempt retry_form (OkJson (JObj [(''valid'', JBool True)])) PostOk))
      = JStr ''Details submitted successfully.''"
    using h
    by (simp add: submit_defs retry_form_fields hello_form_fields nine_digits_examples
        hook_init_def)
  have failure: "serverError (snd (submit_attempt retry_form (OkJson (JObj [(''valid'', JBool True)]))
        (PostNotOk Null)))
      = JStr ''Submission failed. Review your details and try again.''"
    using h
    by (simp add: submit_defs retry_form_fields hello_form_fields nine_digits_examples
        hook_init_def)
  have stopped: "\<not> fst (submit_attempt retry_form (OkJson (JObj [(''valid'', JBool False)])) PostOk)"
    using h
    by (simp add: submit_defs retry_form_fields hello_form_fields nine_digits_examples
        hook_init_def)
  show ?thesis
    using h posted success failure stopped retry_form_fields(3)
      submission_outcome [OF h, of "OkJson (JObj [(''valid'', JBool True)])" PostOk]
      submission_outcome [OF h, of "OkJson (JObj [(''valid'', JBool True)])" "PostNotOk Null"]
      submission_outcome [OF h, of "OkJson (JObj [(''valid'', JBool False)])" PostOk]
    by simp
qed

text \<open>
  The statement is about one attempt at a time because the button stays enabled while
  an attempt is running.  With two submits pressed before any response, the first POST
  answered with a status that is not ok and the second with an ok status, the error of
  the first and the success of the second are both set at the end.
\<close>

lemma overlapping_attempts_set_both:
  "fst (submit_press overlap_f0) = SubmitAwaitingPost
   \<and> fst (submit_press overlap_f1) = SubmitAwaitingPost
   \<and> serverError overlap_f4 = JStr ''Submission failed. Review your details and try again.''
   \<and> serverSuccess overlap_f4 = JStr ''Details submitted successfully.''"
  by (simp add: overlap_f4_def overlap_f3_def overlap_f2_def overlap_f1_def overlap_f0_def
      blur_start_def blur_settled_def submit_defs hello_form_fields helloWorld_ok
      nine_digits_examples hook_init_def)

section \<open>A submit that gets through\<close>

lemma render_after_post:
  assumes "serverError g = Null" and "serverSuccess g = Null"
  shows "field_values (submit_post_settled g PostOk) = defaultValues"
    and "render_server (submit_post_settled g PostOk)
           = [ServerSuccess (JStr ''Details submitted successfully.'')]"
    and "map_of kvs ''message'' = Some (JStr t) \<Longrightarrow> t \<noteq> [] \<Longrightarrow>
           render_server (submit_post_settled g (PostNotOk (JObj kvs))) = [ServerError (JStr t)]"
    and "map_of kvs ''message'' = None \<or> map_of kvs ''message'' = Some Null \<Longrightarrow>
           render_server (submit_post_settled g (PostNotOk (JObj kvs)))
             = [ServerError (JStr ''Submission failed. Review your details and try again.'')]"
    and "\<forall>kvs'. payload \<noteq> JObj kvs' \<Longrightarrow>
           render_server (submit_post_settled g (PostNotOk payload))
             = [ServerError (JStr ''Submission failed. Review your details and try again.'')]"
    and "render_server (submit_post_settled g PostRejected)
           = [ServerError (JStr ''Unable to submit form right now. Please try again.'')]"
proof -
  show "field_values (submit_post_settled g PostOk) = defaultValues"
    by (simp add: submit_post_settled_def reset_form_def)
  show "render_server (submit_post_settled g PostOk)
           = [ServerSuccess (JStr ''Details submitted successfully.'')]"
    using assms by (simp add: submit_post_settled_def reset_form_def render_server_def)
  show "render_server (submit_post_settled g (PostNotOk (JObj kvs))) = [ServerError (JStr t)]"
    if "map_of kvs ''message'' = Some (JStr t)" and "t \<noteq> []"
    using assms that by (simp add: submit_post_settled_def render_server_def nullish_def)
  show "render_server (submit_post_settled g (PostNotOk (JObj kvs)))
             = [ServerError (JStr ''Submission failed. Review your details and try again.'')]"
    if "map_of kvs ''message'' = None \<or> map_of kvs ''message'' = Some Null"
    using assms that by (auto simp add: submit_post_settled_def render_server_def nullish_def)
  show "render_server (submit_post_settled g (PostNotOk payload))
             = [ServerError (JStr ''Submission failed. Review your details and try again.'')]"
    if "\<forall>kvs'. payload \<noteq> JObj kvs'"
    using assms that
    by (cases payload) (simp_all add: submit_post_settled_def render_server_def nullish_def)
  show "render_server (submit_post_settled g PostRejected)
           = [ServerError (JStr ''Unable to submit form right now. Please try again.'')]"
    using assms by (simp add: submit_post_settled_def render_server_def)
qed

text \<open>
  C7 as stated fails.  The claim says that after a response that is not ok a message
  provided by the server is surfaced if present, and a generic fallback otherwise.  The
  form holds \<open>helloWorld\<close>, the lookup says valid, and the POST is answered with a
  status that is not ok and the body \<open>{message: ""}\<close>: the message is present, so no
  fallback is used, and the screen shows the error only when it is truthy, so nothing
  is shown at all.
\<close>

theorem empty_message_shows_nothing:
  "fst (submit_attempt hello_form (OkJson (JObj [(''valid'', JBool True)]))
         (PostNotOk (JObj [(''message'', JStr [])])))
   \<and> serverError (snd (submit_attempt hello_form (OkJson (JObj [(''valid'', JBool True)]))
         (PostNotOk (JObj [(''message'', JStr [])]))))
       = JStr []
   \<and> render_server (snd (submit_attempt hello_form (OkJson (JObj [(''valid'', JBool True)]))
         (PostNotOk (JObj [(''message'', JStr [])]))))
       = []"
  using helloWorld_ok
  by (simp add: submit_defs hello_form_fields nine_digits_examples hook_init_def
      render_server_def)

text \<open>
  C7, amended.  When every field passes the synchronous validation and the lookup says
  the number is valid (from the cache, or from the request the submit sends), submit
  issues a POST to the profile endpoint whose body is the JSON object of the four form
  values.  When the response is ok, the form values are back to the defaults and the
  screen shows "Details submitted successfully.".  When the response is not ok and its
  body is an object whose \<open>message\<close> is a non-empty string, the screen shows that
  message; when the body has no \<open>message\<close> or a null one, or is not an object (a body
  that does not parse counts as null), the screen shows "Submission failed. Review your
  details and try again.".  When the request fails in transport, the screen shows
  "Unable to submit form right now. Please try again.".
\<close>

theorem submit_valid_posts:
  assumes ok: "onboardingSchema (field_values f) = no_errors"
    and lv: "lookup_says_valid (hook f) (corporationNumber (field_values f)) lo"
  shows "fst (submit_attempt f lo po)
       \<and> fetch_calls (hook (snd (submit_attempt f lo po)))
           = fetch_calls (hook f) @ lookup_requests (hook f) (corporationNumber (field_values f))
             @ [POST PROFILE_ENDPOINT
                  (JObj [(''firstName'', JStr (firstName (field_values f))),
                         (''lastName'', JStr (lastName (field_values f))),
                         (''phone'', JStr (phone (field_values f))),
                         (''corporationNumber'', JStr (corporationNumber (field_values f)))])]
       \<and> (po = PostOk \<longrightarrow>
            field_values (snd (submit_attempt f lo po)) = defaultValues
            \<and> render_server (snd (submit_attempt f lo po))
                = [ServerSuccess (JStr ''Details submitted successfully.'')])
       \<and> (po = PostNotOk (JObj kvs) \<and> map_of kvs ''message'' = Some (JStr t) \<and> t \<noteq> [] \<longrightarrow>
            render_server (snd (submit_attempt f lo po)) = [ServerError (JStr t)])
       \<and> (po = PostNotOk (JObj kvs)
            \<and> (map_of kvs ''message'' = None \<or> map_of kvs ''message'' = Some Null) \<longrightarrow>
            render_server (snd (submit_attempt f lo po))
              = [ServerError (JStr ''Submission failed. Review your details and try again.'')])
       \<and> (po = PostNotOk payload \<and> (\<forall>kvs'. payload \<noteq> JObj kvs') \<longrightarrow>
            render_server (snd (submit_attempt f lo po))
              = [ServerError (JStr ''Submission failed. Review your details and try again.'')])
       \<and> (po = PostRejected \<longrightarrow>
            render_server (snd (submit_attempt f lo po))
              = [ServerError (JStr ''Unable to submit form right now. Please try again.'')])"
proof -
  from submit_valid_pre_post [OF ok lv, of po] obtain g where
    g: "submit_attempt f lo po = (True, submit_post_settled g po)"
      "fetch_calls (hook g) = fetch_calls (hook f)
               @ lookup_requests (hook f) (corporationNumber (field_values f))
               @ [POST PROFILE_ENDPOINT (json_of_values (field_values f))]"
      "serverError g = Null" "serverSuccess g = Null" "field_values g = field_values f"
    by blast
  have c1: "fst (submit_attempt f lo po)" using g(1) by simp
  have c2: "fetch_calls (hook (snd (submit_attempt f lo po)))
           = fetch_calls (hook f) @ lookup_requests (hook f) (corporationNumber (field_values f))
             @ [POST PROFILE_ENDPOINT
                  (JObj [(''firstName'', JStr (firstName (field_values f))),
                         (''lastName'', JStr (lastName (field_values f))),
                         (''phone'', JStr (phone (field_values f))),
                         (''corporationNumber'', JStr (corporationNumber (field_values f)))])]"
    using g(1,2)
    by (cases po)
      (simp_all add: submit_post_settled_def reset_form_def reset_validation_def
        json_of_values_def)
  have c3: "po = PostOk \<longrightarrow>
            field_values (snd (submit_attempt f lo po)) = defaultValues
            \<and> render_server (snd (submit_attempt f lo po))
                = [ServerSuccess (JStr ''Details submitted successfully.'')]"
    using g(1,3,4) by (auto simp add: render_after_post)
  have c4: "po = PostNotOk (JObj kvs) \<and> map_of kvs ''message'' = Some (JStr t) \<and> t \<noteq> [] \<longrightarrow>
            render_server (snd (submit_attempt f lo po)) = [ServerError (JStr t)]"
    using g(1,3,4) by (auto simp add: render_after_post)
  have c5: "po = PostNotOk (JObj kvs)
            \<and> (map_of kvs ''message'' = None \<or> map_of kvs ''message'' = Some Null) \<longrightarrow>
            render_server (snd (submit_attempt f lo po))
              = [ServerError (JStr ''Submission failed. Review your details and try again.'')]"
    using g(1,3,4) render_after_post(4) [OF g(3,4), of kvs] by auto
  have c6: "po = PostNotOk payload \<and> (\<forall>kvs'. payload \<noteq> JObj kvs') \<longrightarrow>
            render_server (snd (submit_attempt f lo po))
              = [ServerError (JStr ''Submission failed. Review your details and try again.'')]"
    using g(1,3,4) render_after_post(5) [OF g(3,4), of payload] by auto
  have c7: "po = PostRejected \<longrightarrow>
            render_server (snd (submit_attempt f lo po))
              = [ServerError (JStr ''Unable to submit form right now. Please try again.'')]"
    using g(1,3,4) by (auto simp add: render_after_post)
  show ?thesis
    using c1 c2 c3 c4 c5 c6 c7 by blast
qed

theorem submit_valid_posts_witness:
  "onboardingSchema (field_values hello_form) = no_errors
   \<and> lookup_says_valid (hook hello_form) (corporationNumber (field_values hello_form))
        (OkJson (JObj [(''corporationNumber'', JStr ''826417395''), (''valid'', JBool True)]))
   \<and> fetch_calls (hook (snd (submit_attempt hello_form
        (OkJson (JObj [(''corporationNumber'', JStr ''826417395''), (''valid'', JBool True)])) PostOk)))
       = [GET ''https://fe-hometask-api.qa.vault.tryvault.com/corporation-number/826417395'',
          POST ''https://fe-hometask-api.qa.vault.tryvault.com/profile-details''
            (JObj [(''firstName'', JStr ''Hello''), (''lastName'', JStr ''World''),
                   (''phone'', JStr ''+13062776103''),
                   (''corporationNumber'', JStr ''826417395'')])]
   \<and> field_values (snd (submit_attempt hello_form
        (OkJson (JObj [(''corporationNumber'', JStr ''826417395''), (''valid'', JBool True)])) PostOk))
       = \<lparr>firstName = [], lastName = [], phone = [], corporationNumber = []\<rparr>
   \<and> render_server (snd (submit_attempt hello_form
        (OkJson (JObj [(''corporationNumber'', JStr ''826417395''), (''valid'', JBool True)])) PostOk))
       = [ServerSuccess (JStr ''Details submitted successfully.'')]
   \<and> map_of [(''message'', JStr ''Phone number is already registered'')] ''message''
       = Some (JStr ''Phone number is already registered'')
   \<and> render_server (snd (submit_attempt hello_form
        (OkJson (JObj [(''corporationNumber'', JStr ''826417395''), (''valid'', JBool True)]))
        (PostNotOk (JObj [(''message'', JStr ''Phone number is already registered'')]))))
       = [ServerError (JStr ''Phone number is already registered'')]
   \<and> map_of [(''code'', JNum 422)] ''message'' = None
   \<and> render_server (snd (submit_attempt hello_form
        (OkJson (JObj [(''corporationNumber'', JStr ''826417395''), (''valid'', JBool True)]))
        (PostNotOk (JObj [(''code'', JNum 422)]))))
       = [ServerError (JStr ''Submission failed. Review your details and try again.'')]
   \<and> (\<forall>kvs'. Null \<noteq> JObj kvs')
   \<and> render_server (snd (submit_attempt hello_form
        (OkJson (JObj [(''corporationNumber'', JStr ''826417395''), (''valid'', JBool True)]))
        (PostNotOk Null)))
       = [ServerError (JStr ''Submission failed. Review your details and try again.'')]
   \<and> render_server (snd (submit_attempt hello_form
        (OkJson (JObj [(''corporationNumber'', JStr ''826417395''), (''valid'', JBool True)]))
        PostRejected))
       = [ServerError (JStr ''Unable to submit form right now. Please try again.'')]"
proof -
  have h1: "onboardingSchema (field_values hello_form) = no_errors"
    by (simp add: hello_form_fields helloWorld_ok)
  have h2: "lookup_says_valid (hook hello_form) (corporationNumber (field_values hello_form))
        (OkJson (JObj [(''corporationNumber'', JStr ''826417395''), (''valid'', JBool True)]))"
    by (simp add: lookup_says_valid_def hello_form_fields hook_init_def)
  have calls: "fetch_calls hook_init = []"
    "lookup_requests hook_init ''826417395''
      = [GET ''https://fe-hometask-api.qa.vault.tryvault.com/corporation-number/826417395'']"
    "PROFILE_ENDPOINT = ''https://fe-hometask-api.qa.vault.tryvault.com/profile-details''"
    "defaultValues = \<lparr>firstName = [], lastName = [], phone = [], corporationNumber = []\<rparr>"
    by (simp_all add: lookup_requests_def hello_form_fields hook_init_def lookup_url_def
        CORPORATION_ENDPOINT_def PROFILE_ENDPOINT_def defaultValues_def)
  have vals: "firstName helloWorld = ''Hello''" "lastName helloWorld = ''World''"
    "phone helloWorld = ''+13062776103''"
    by (simp_all add: helloWorld_def)
  show ?thesis
    using h1 h2
      submit_valid_posts [OF h1 h2, of PostOk]
      submit_valid_posts [OF h1 h2,
        of "PostNotOk (JObj [(''message'', JStr ''Phone number is already registered'')])"
           "[(''message'', JStr ''Phone number is already registered'')]"
           "''Phone number is already registered''"]
      submit_valid_posts [OF h1 h2, of "PostNotOk (JObj [(''code'', JNum 422)])"
           "[(''code'', JNum 422)]"]
      submit_valid_posts [OF h1 h2, of "PostNotOk Null" _ _ Null]
      submit_valid_posts [OF h1 h2, of PostRejected]
    by (simp add: hello_form_fields calls vals)
qed

text \<open>
  C8.  For the form values with every field empty, pressing submit yields exactly four
  field errors at once: "First name is required", "Last name is required", the phone
  pattern message and the corporation number format message.  The handler does not run
  and the attempt ends there, so no request is made, neither a lookup nor a submission.
\<close>

theorem empty_form_four_errors:
  "submit_press (f\<lparr>field_values := defaultValues\<rparr>)
     = (SubmitReturned,
        f\<lparr>field_values := defaultValues,
          errors := \<lparr>firstNameError = Some (JStr ''First name is required''),
                     lastNameError = Some (JStr ''Last name is required''),
                     phoneError = Some (JStr ''Enter a valid Canadian phone number starting with +1 followed by 10 digits''),
                     corporationNumberError = Some (JStr ''Corporation number must be exactly 9 digits'')\<rparr>\<rparr>)
   \<and> fetch_calls (hook (snd (submit_attempt (f\<lparr>field_values := defaultValues\<rparr>) lo po)))
       = fetch_calls (hook f)"
  by (simp add: submit_attempt_def submit_press_def onboardingSchema_def defaultValues_def
      no_errors_def firstName_rule_def lastName_rule_def phone_rule_def phone_re_def
      corporationNumber_rule_def nine_digits_def)

theorem empty_form_four_errors_witness:
  "fst (submit_press form_init) = SubmitReturned
   \<and> errors (snd (submit_press form_init))
       = \<lparr>firstNameError = Some (JStr ''First name is required''),
          lastNameError = Some (JStr ''Last name is required''),
          phoneError = Some (JStr ''Enter a valid Canadian phone number starting with +1 followed by 10 digits''),
          corporationNumberError = Some (JStr ''Corporation number must be exactly 9 digits'')\<rparr>
   \<and> fetch_calls (hook (snd (submit_attempt form_init NotOk PostOk))) = []
   \<and> render_corporation (snd (submit_press form_init))
       = [CorporationError (JStr ''Corporation number must be exactly 9 digits'')]"
proof -
  have e: "form_init\<lparr>field_values := defaultValues\<rparr> = form_init"
    by (simp add: form_init_def)
  have c: "fetch_calls (hook form_init) = []" "hook form_init = hook_init"
    by (simp_all add: form_init_def hook_init_def)
  show ?thesis
    using e c empty_form_four_errors [of form_init NotOk PostOk]
    by (simp add: render_corporation_def corporationErrorMatchesValidationMessage_def
        hook_init_def)
qed

text \<open>
  C9.  When the final submission fails, by a response that is not ok or by a transport
  exception, the field values are left unchanged; only an ok response clears them.  This
  holds for the step that handles the settled POST and for a whole submit attempt: its
  values are the defaults exactly when the POST was sent and answered ok, and otherwise
  the ones it started with.
\<close>

theorem failed_submission_keeps_values:
  "field_values (submit_post_settled f po)
     = (if po = PostOk then defaultValues else field_values f)
   \<and> field_values (snd (submit_attempt f lo po))
       = (if fst (submit_attempt f lo po) \<and> po = PostOk then defaultValues else field_values f)"
proof -
  obtain p f1 where sp: "submit_press f = (p, f1)" by (cases "submit_press f")
  have f1: "field_values f1 = field_values f" using submit_press_frame(1) [of f] sp by simp
  have "field_values (snd (submit_attempt f lo po))
       = (if fst (submit_attempt f lo po) \<and> po = PostOk then defaultValues else field_values f)"
  proof (cases p)
    case SubmitReturned
    with sp f1 show ?thesis by (simp add: submit_attempt_alt)
  next
    case (SubmitAwaitingLookup c n v)
    with sp f1 show ?thesis
      by (simp add: submit_attempt_alt submit_post_settled_values submit_lookup_settled_frame)
  next
    case SubmitAwaitingPost
    with sp f1 show ?thesis by (simp add: submit_attempt_alt submit_post_settled_values)
  qed
  then show ?thesis by (simp add: submit_post_settled_values)
qed

theorem failed_submission_keeps_values_witness:
  "fst (submit_attempt hello_form (OkJson (JObj [(''valid'', JBool True)]))
         (PostNotOk (JObj [(''message'', JStr ''Rejected'')])))
   \<and> field_values (snd (submit_attempt hello_form (OkJson (JObj [(''valid'', JBool True)]))
         (PostNotOk (JObj [(''message'', JStr ''Rejected'')]))))
       = helloWorld
   \<and> field_values (snd (submit_attempt hello_form (OkJson (JObj [(''valid'', JBool True)]))
         PostRejected))
       = helloWorld
   \<and> field_values (snd (submit_attempt hello_form (OkJson (JObj [(''valid'', JBool True)]))
         PostOk))
       = defaultValues"
proof -
  have h: "onboardingSchema (field_values hello_form) = no_errors"
    by (simp add: hello_form_fields helloWorld_ok)
  have posted: "fst (submit_attempt hello_form (OkJson (JObj [(''valid'', JBool True)])) po)" for po
    using h by (cases po) (simp_all add: submit_defs hello_form_fields nine_digits_examples hook_init_def)
  show ?thesis
    using posted
      failed_submission_keeps_values [of hello_form "PostNotOk (JObj [(''message'', JStr ''Rejected'')])"
        "OkJson (JObj [(''valid'', JBool True)])"]
      failed_submission_keeps_values [of hello_form PostRejected "OkJson (JObj [(''valid'', JBool True)])"]
      failed_submission_keeps_values [of hello_form PostOk "OkJson (JObj [(''valid'', JBool True)])"]
    by (simp add: hello_form_fields)
qed

end
